theory Spec2Isabelle
  imports Main
begin

section \<open>Python values\<close>

text \<open>
  Strings are byte lists holding the UTF-8 encoding of the Python text; the scripts only
  concatenate, slice by ASCII prefixes and compare strings, so bytes and code points agree
  on everything modelled here. A value that may be \<^verbatim>\<open>None\<close> is an \<open>option\<close>.
\<close>

abbreviation nl :: string where
  "nl \<equiv> [CHR 0x0A]"

text \<open>
  \<^verbatim>\<open>x or d\<close> for an optional string \<open>x\<close>: \<^verbatim>\<open>None\<close> and the empty string are
  false.
\<close>

definition py_or :: "string option \<Rightarrow> string \<Rightarrow> string" where
  "py_or x d = (case x of None \<Rightarrow> d | Some v \<Rightarrow> if v = [] then d else v)"

fun str_nat :: "nat \<Rightarrow> string" where
  "str_nat n = (if n < 10 then [''0123456789'' ! n]
                else str_nat (n div 10) @ [''0123456789'' ! (n mod 10)])"

declare str_nat.simps [simp del]

text \<open>\<^verbatim>\<open>str(i)\<close> for an integer.\<close>

definition str_int :: "int \<Rightarrow> string" where
  "str_int i = (if i < 0 then ''-'' @ str_nat (nat (- i)) else str_nat (nat i))"

text \<open>An optional string inside an f-string: \<^verbatim>\<open>None\<close> prints as the word.\<close>

definition str_opt :: "string option \<Rightarrow> string" where
  "str_opt x = (case x of None \<Rightarrow> ''None'' | Some v \<Rightarrow> v)"

definition startswith :: "string \<Rightarrow> string \<Rightarrow> bool" where
  "startswith s p \<longleftrightarrow> take (length p) s = p"

text \<open>\<^verbatim>\<open>s.split(' ', 1)\<close>: cut at the first space, if there is one.\<close>

definition split_space_1 :: "string \<Rightarrow> string list" where
  "split_space_1 s =
     (let a = takeWhile (\<lambda>c. c \<noteq> CHR '' '') s;
          b = dropWhile (\<lambda>c. c \<noteq> CHR '' '') s
      in if b = [] then [a] else [a, tl b])"

text \<open>The JSON bodies of the requests.\<close>

datatype json =
    JNull
  | JBool bool
  | JInt int
  | JStr string
  | JList "json list"
  | JObj "(string \<times> json) list"

section \<open>Configuration and Telegram data\<close>

text \<open>
  One entry of \<^verbatim>\<open>config['departments']\<close> with its \<^verbatim>\<open>matrix\<close> block. The
  configuration is taken as well-formed: every key the scripts index is present.
  \<open>mx_support_users\<close> is read with \<^verbatim>\<open>.get('support_users', [])\<close>, so a missing key is \<open>[]\<close>.
\<close>

record matrix_config =
  mx_homeserver :: string
  mx_access_token :: string
  mx_bot_user_id :: string
  mx_support_users :: "string list"

record department =
  dept_id :: string
  dept_name :: string
  dept_icon :: string
  dept_description :: string
  dept_matrix :: matrix_config

text \<open>The Telegram user of an event (\<^verbatim>\<open>user.id\<close> is \<open>tg_id\<close>).\<close>

record user =
  tg_id :: int
  tg_first_name :: "string option"
  tg_username :: "string option"
  tg_last_name :: "string option"

text \<open>
  \<^verbatim>\<open>spaces_config['spaces']\<close>: the root space and the communication channels.
\<close>

record space_config =
  cfg_id :: string
  cfg_name :: string
  cfg_topic :: string

record spaces_config =
  rootSpace :: space_config
  communicationChannels :: "space_config list"

section \<open>The Matrix server and the Telegram transport\<close>

text \<open>
  A request to \<^verbatim>\<open>{homeserver}/_matrix/client/v3\<close> with
  \<^verbatim>\<open>Authorization: Bearer {token}\<close> and a JSON body. The endpoint gives path and method:
  \<^item> \<open>CreateRoom\<close>: \<^verbatim>\<open>POST /createRoom\<close>;
  \<^item> \<open>Invite r\<close>: \<^verbatim>\<open>POST /rooms/{r}/invite\<close>;
  \<^item> \<open>SpaceChild p c\<close>: \<^verbatim>\<open>PUT /rooms/{p}/state/m.space.child/{c}\<close>;
  \<^item> \<open>SendMessage r\<close>: \<^verbatim>\<open>POST /rooms/{r}/send/m.room.message\<close>.
\<close>

datatype endpoint =
    CreateRoom
  | Invite string
  | SpaceChild string string
  | SendMessage string

record http_call =
  server :: string
  endpoint :: endpoint
  bearer :: string
  body :: json

text \<open>
  What comes back:
  \<^item> \<open>Response status (Some r)\<close>: a status and a JSON answer whose \<^verbatim>\<open>room_id\<close> is the
    string \<open>r\<close>;
  \<^item> \<open>Response status None\<close>: a status and a JSON answer without \<^verbatim>\<open>room_id\<close>
    (\<^verbatim>\<open>result.get('room_id')\<close> is \<^verbatim>\<open>None\<close>, \<^verbatim>\<open>data['room_id']\<close> raises
    \<^verbatim>\<open>KeyError\<close>);
  \<^item> \<open>ResponseNull status\<close>: a status and a JSON answer whose \<^verbatim>\<open>room_id\<close> is
    \<^verbatim>\<open>null\<close> (both readings give \<^verbatim>\<open>None\<close>);
  \<^item> \<open>Raised\<close>: an exception raised inside the \<^verbatim>\<open>async with\<close> block (connection
    error, unreadable answer).
\<close>

datatype http_response =
    Response nat "string option"
  | ResponseNull nat
  | Raised

text \<open>
  The world outside the process: the server's answer to a request, given all requests
  made before it, and the event loop's clock in milliseconds
  (\<^verbatim>\<open>int(asyncio.get_event_loop().time() * 1000)\<close>) at that moment.
\<close>

record env =
  respond :: "http_call list \<Rightarrow> http_call \<Rightarrow> http_response"
  loop_time_ms :: "http_call list \<Rightarrow> int"

text \<open>
  What the scripts send to the Telegram user: \<^verbatim>\<open>event.respond(text, buttons=...)\<close>
  and \<^verbatim>\<open>event.edit(text)\<close> of Telethon; \<^verbatim>\<open>reply_text\<close>, \<^verbatim>\<open>query.answer()\<close>
  and \<^verbatim>\<open>edit_message_text\<close> of python-telegram-bot (the last argument is
  \<^verbatim>\<open>parse_mode\<close>). A button is its label and its callback data.
\<close>

type_synonym keyboard = "(string \<times> string) list list"

datatype tg_action =
    Respond string "keyboard option"
  | Edit string
  | ReplyText string "keyboard option" "string option"
  | Answer
  | EditMessageText string "string option"

text \<open>
  A value of \<^verbatim>\<open>user_sessions\<close> in the two Telethon scripts: either
  \<^verbatim>\<open>{"state": "selecting_department"}\<close> or
  \<^verbatim>\<open>{"state": "chatting", "department": d, "matrix_room_id": r}\<close>.
\<close>

datatype session =
    SelectingDepartment
  | Chatting department string

text \<open>
  The object state of \<^verbatim>\<open>DepartmentRouter\<close> and \<^verbatim>\<open>TelegramSpaceIntegration\<close>
  (\<open>space_cache\<close> exists in the latter only), together with the trace of requests made
  to Matrix and of actions sent to Telegram. Log lines are not part of the state: no code
  reads them.
\<close>

record state =
  user_sessions :: "int \<rightharpoonup> session"
  space_cache :: "string \<rightharpoonup> string option"
  calls :: "http_call list"
  sent :: "tg_action list"

definition http :: "env \<Rightarrow> http_call \<Rightarrow> state \<Rightarrow> http_response \<times> state" where
  "http e c s = (respond e (calls s) c, s\<lparr>calls := calls s @ [c]\<rparr>)"

definition tg :: "tg_action \<Rightarrow> state \<Rightarrow> state" where
  "tg a s = s\<lparr>sent := sent s @ [a]\<rparr>"

section \<open>Department registry (both Telethon scripts)\<close>

fun get_department_by_id :: "department list \<Rightarrow> string \<Rightarrow> department option" where
  "get_department_by_id [] i = None"
| "get_department_by_id (dept # depts) i =
     (if dept_id dept = i then Some dept else get_department_by_id depts i)"

definition get_departments_keyboard :: "department list \<Rightarrow> keyboard" where
  "get_departments_keyboard depts =
     map (\<lambda>dept. [(dept_icon dept @ '' '' @ dept_name dept, ''dept_'' @ dept_id dept)]) depts"

section \<open>telegram-department-router.py: DepartmentRouter\<close>

text \<open>The three non-ASCII prefixes of the file's message texts, as its bytes are.\<close>

abbreviation router_wave :: string where
  "router_wave \<equiv> [CHR 0xC3, CHR 0xB0, CHR 0xC5, CHR 0xB8, CHR 0xE2, CHR 0x80, CHR 0x98,
                  CHR 0xE2, CHR 0x80, CHR 0xB9]"

abbreviation router_check :: string where
  "router_check \<equiv> [CHR 0xC3, CHR 0xA2, CHR 0xC5, CHR 0x93, CHR 0xE2, CHR 0x80, CHR 0xA6]"

abbreviation router_cross :: string where
  "router_cross \<equiv> [CHR 0xC3, CHR 0xA2, CHR 0xC5, CHR 0x92]"

definition invite_to_room :: "env \<Rightarrow> string option \<Rightarrow> string \<Rightarrow> department \<Rightarrow> state \<Rightarrow> state" where
  "invite_to_room e room_id user_id department s =
     (let homeserver = mx_homeserver (dept_matrix department);
          access_token = mx_access_token (dept_matrix department);
          invite_data = JObj [(''user_id'', JStr user_id)]
      in snd (http e \<lparr>server = homeserver, endpoint = Invite (str_opt room_id),
                       bearer = access_token, body = invite_data\<rparr> s))"

text \<open>
  The payloads \<^verbatim>\<open>room_data\<close> and \<^verbatim>\<open>message_data\<close> that the methods build are
  definitions of their own, so that a statement can name the request a method makes.
\<close>

definition router_room_data :: "department \<Rightarrow> user \<Rightarrow> json" where
  "router_room_data department telegram_user =
     (let user_display = py_or (tg_first_name telegram_user)
                           (py_or (tg_username telegram_user)
                              (''User_'' @ str_int (tg_id telegram_user)))
      in JObj
            [(''name'', JStr (''Telegram Support - '' @ dept_name department @ '' - '' @ user_display)),
             (''topic'', JStr (''Support conversation from Telegram user '' @
                               py_or (tg_username telegram_user) (str_int (tg_id telegram_user)))),
             (''preset'', JStr ''private_chat''),
             (''is_direct'', JBool True),
             (''creation_content'', JObj [(''m.federate'', JBool False)])])"

definition router_create_matrix_room ::
  "env \<Rightarrow> department \<Rightarrow> user \<Rightarrow> state \<Rightarrow> string option \<times> state" where
  "router_create_matrix_room e department telegram_user s =
     (let homeserver = mx_homeserver (dept_matrix department);
          access_token = mx_access_token (dept_matrix department);
          bot_user_id = mx_bot_user_id (dept_matrix department);
          room_data = router_room_data department telegram_user
      in case http e \<lparr>server = homeserver, endpoint = CreateRoom,
                       bearer = access_token, body = room_data\<rparr> s of
           (Response status room_id, s1) \<Rightarrow>
             if status = 200
             then (room_id, invite_to_room e room_id bot_user_id department s1)
             else (None, s1)
         | (ResponseNull status, s1) \<Rightarrow>
             if status = 200
             then (None, invite_to_room e None bot_user_id department s1)
             else (None, s1)
         | (Raised, s1) \<Rightarrow> (None, s1))"

definition router_message_data :: "string \<Rightarrow> user \<Rightarrow> json" where
  "router_message_data message telegram_user =
          JObj
            [(''msgtype'', JStr ''m.text''),
             (''body'', JStr (''[Telegram User: '' @ py_or (tg_first_name telegram_user) ''Unknown'' @
                              '' (@'' @ py_or (tg_username telegram_user) (str_int (tg_id telegram_user)) @
                              '')] '' @ message)),
             (''format'', JStr ''org.matrix.custom.html''),
             (''formatted_body'', JStr (''<b>Telegram User:</b> '' @
                              py_or (tg_first_name telegram_user) ''Unknown'' @
                              '' (@'' @ py_or (tg_username telegram_user) (str_int (tg_id telegram_user)) @
                              '')<br/>'' @ message))]"

text \<open>
  The method has no \<^verbatim>\<open>return\<close>: its value is \<^verbatim>\<open>None\<close> on every path, and the
  answer to the request only chooses the log line. The model returns the state alone.
\<close>

definition router_send_matrix_message ::
  "env \<Rightarrow> string \<Rightarrow> string \<Rightarrow> department \<Rightarrow> user \<Rightarrow> state \<Rightarrow> state" where
  "router_send_matrix_message e room_id message department telegram_user s =
     (let homeserver = mx_homeserver (dept_matrix department);
          access_token = mx_access_token (dept_matrix department);
          message_data = router_message_data message telegram_user
      in snd (http e \<lparr>server = homeserver, endpoint = SendMessage room_id,
                       bearer = access_token, body = message_data\<rparr> s))"

definition router_select_department :: "env \<Rightarrow> department \<Rightarrow> user \<Rightarrow> state \<Rightarrow> state" where
  "router_select_department e department user s =
     (let user_id = tg_id user;
          (room_id, s1) = router_create_matrix_room e department user s
      in case room_id of
           Some r \<Rightarrow>
             if r \<noteq> [] then
               let s2 = s1\<lparr>user_sessions := (user_sessions s1)(user_id \<mapsto> Chatting department r)\<rparr>;
                   confirmation_message =
                     router_check @ '' Connected to '' @ dept_icon department @ '' **'' @
                     dept_name department @ ''**'' @ nl @ nl @
                     dept_description department @ nl @ nl @
                     ''You can now send your message and our team will respond shortly!'';
                   s3 = tg (Respond confirmation_message None) s2;
                   initial_message =
                     ''New Telegram conversation started with user '' @
                     py_or (tg_first_name user) ''Unknown'' @
                     '' (@'' @ py_or (tg_username user) (str_int (tg_id user)) @ '')''
               in router_send_matrix_message e r initial_message department user s3
             else tg (Respond (router_cross @
                    '' Sorry, I couldn't connect you to that department. Please try again later.'') None) s1
         | None \<Rightarrow> tg (Respond (router_cross @
                    '' Sorry, I couldn't connect you to that department. Please try again later.'') None) s1)"

definition router_handle_start_command ::
  "env \<Rightarrow> department list \<Rightarrow> user \<Rightarrow> string option \<Rightarrow> state \<Rightarrow> state" where
  "router_handle_start_command e departments user department_id s =
     (let user_id = tg_id user
      in case (case department_id of
                 None \<Rightarrow> None
               | Some i \<Rightarrow> if i = [] then None else get_department_by_id departments i) of
           Some department \<Rightarrow> router_select_department e department user s
         | None \<Rightarrow>
             let welcome_message =
                   router_wave @ '' Welcome '' @ py_or (tg_first_name user) ''there'' @ ''!'' @ nl @ nl @
                   ''I'm your support bot. Please select the department you'd like to contact:'';
                 keyboard = get_departments_keyboard departments;
                 s1 = tg (Respond welcome_message (Some keyboard)) s
             in s1\<lparr>user_sessions := (user_sessions s1)(user_id \<mapsto> SelectingDepartment)\<rparr>)"

definition router_handle_callback_query ::
  "env \<Rightarrow> department list \<Rightarrow> user \<Rightarrow> string \<Rightarrow> state \<Rightarrow> state" where
  "router_handle_callback_query e departments user data s =
     (if startswith data ''dept_'' then
        let department_id = drop 5 data
        in case get_department_by_id departments department_id of
             Some department \<Rightarrow>
               router_select_department e department user
                 (tg (Edit (''Connecting you to '' @ dept_icon department @ '' '' @
                            dept_name department @ ''...'')) s)
           | None \<Rightarrow> tg (Edit (router_cross @ '' Department not found. Please try again.'')) s
      else s)"

definition router_handle_message ::
  "env \<Rightarrow> department list \<Rightarrow> user \<Rightarrow> string \<Rightarrow> state \<Rightarrow> state" where
  "router_handle_message e departments user message_text s =
     (case user_sessions s (tg_id user) of
        Some (Chatting department room_id) \<Rightarrow>
          router_send_matrix_message e room_id message_text department user s
      | Some SelectingDepartment \<Rightarrow> router_handle_start_command e departments user None s
      | None \<Rightarrow> router_handle_start_command e departments user None s)"

definition router_start_handler ::
  "env \<Rightarrow> department list \<Rightarrow> user \<Rightarrow> string \<Rightarrow> state \<Rightarrow> state" where
  "router_start_handler e departments user command_text s =
     (let parts = split_space_1 command_text;
          department_id = (if length parts > 1 then Some (parts ! 1) else None)
      in router_handle_start_command e departments user department_id s)"

definition router_message_handler ::
  "env \<Rightarrow> department list \<Rightarrow> user \<Rightarrow> string \<Rightarrow> state \<Rightarrow> state" where
  "router_message_handler e departments user message_text s =
     (if startswith message_text ''/'' then s
      else router_handle_message e departments user message_text s)"

section \<open>telegram-space-integration.py: TelegramSpaceIntegration\<close>

abbreviation space_phone :: string where
  "space_phone \<equiv> [CHR 0xF0, CHR 0x9F, CHR 0x93, CHR 0xB1]"

abbreviation space_wave :: string where
  "space_wave \<equiv> [CHR 0xF0, CHR 0x9F, CHR 0x91, CHR 0x8B]"

abbreviation space_check :: string where
  "space_check \<equiv> [CHR 0xE2, CHR 0x9C, CHR 0x85]"

abbreviation space_pin :: string where
  "space_pin \<equiv> [CHR 0xF0, CHR 0x9F, CHR 0x93, CHR 0x8D]"

abbreviation space_cross :: string where
  "space_cross \<equiv> [CHR 0xE2, CHR 0x9D, CHR 0x8C]"

text \<open>
  The exceptions that leave the \<^verbatim>\<open>ensure_*\<close> methods: \<^verbatim>\<open>departments[0]\<close> of an
  empty list, whatever the HTTP client raised, and the script's own
  \<^verbatim>\<open>raise Exception(text)\<close>.
\<close>

datatype error =
    IndexError
  | ClientError
  | Failure string

definition space_data :: "space_config \<Rightarrow> json" where
  "space_data config =
     JObj [(''name'', JStr (cfg_name config)),
           (''topic'', JStr (cfg_topic config)),
           (''preset'', JStr ''private_chat''),
           (''creation_content'', JObj [(''type'', JStr ''m.space'')])]"

definition ensure_root_space ::
  "env \<Rightarrow> department list \<Rightarrow> spaces_config \<Rightarrow> state \<Rightarrow> (error + string option) \<times> state" where
  "ensure_root_space e departments spaces s =
     (case departments of
        [] \<Rightarrow> (Inl IndexError, s)
      | d0 # _ \<Rightarrow>
         (let admin_token = mx_access_token (dept_matrix d0);
              homeserver = mx_homeserver (dept_matrix d0);
              root_config = rootSpace spaces;
              room_data = space_data root_config
          in case http e \<lparr>server = homeserver, endpoint = CreateRoom,
                           bearer = admin_token, body = room_data\<rparr> s of
               (Response status space_id, s1) \<Rightarrow>
                 if status = 200 then (Inr space_id, s1)
                 else (Inl (Failure (''Failed to create root space: '' @ str_nat status)), s1)
             | (ResponseNull status, s1) \<Rightarrow>
                 if status = 200 then (Inr None, s1)
                 else (Inl (Failure (''Failed to create root space: '' @ str_nat status)), s1)
             | (Raised, s1) \<Rightarrow> (Inl ClientError, s1)))"

definition add_space_to_parent ::
  "env \<Rightarrow> string option \<Rightarrow> string option \<Rightarrow> string \<Rightarrow> string \<Rightarrow> state \<Rightarrow> state" where
  "add_space_to_parent e child_space_id parent_space_id access_token homeserver s =
     (let state_data = JObj
            [(''via'', JList [JStr ''localhost'']),
             (''order'', JStr (str_int (loop_time_ms e (calls s))))]
      in snd (http e \<lparr>server = homeserver,
                       endpoint = SpaceChild (str_opt parent_space_id) (str_opt child_space_id),
                       bearer = access_token, body = state_data\<rparr> s))"

definition ensure_telegram_space ::
  "env \<Rightarrow> department list \<Rightarrow> spaces_config \<Rightarrow> string option \<Rightarrow> state \<Rightarrow>
   (error + string option) \<times> state" where
  "ensure_telegram_space e departments spaces root_space_id s =
     (case departments of
        [] \<Rightarrow> (Inl IndexError, s)
      | d0 # _ \<Rightarrow>
         (let admin_token = mx_access_token (dept_matrix d0);
              homeserver = mx_homeserver (dept_matrix d0)
          in case find (\<lambda>channel. cfg_id channel = ''telegram'') (communicationChannels spaces) of
               None \<Rightarrow> (Inl (Failure ''Telegram space configuration not found''), s)
             | Some telegram_config \<Rightarrow>
                (let room_data = space_data telegram_config
                 in case http e \<lparr>server = homeserver, endpoint = CreateRoom,
                                  bearer = admin_token, body = room_data\<rparr> s of
                      (Response status space_id, s1) \<Rightarrow>
                        if status = 200
                        then (Inr space_id,
                              add_space_to_parent e space_id root_space_id admin_token homeserver s1)
                        else (Inl (Failure (''Failed to create Telegram space: '' @ str_nat status)), s1)
                    | (ResponseNull status, s1) \<Rightarrow>
                        if status = 200
                        then (Inr None,
                              add_space_to_parent e None root_space_id admin_token homeserver s1)
                        else (Inl (Failure (''Failed to create Telegram space: '' @ str_nat status)), s1)
                    | (Raised, s1) \<Rightarrow> (Inl ClientError, s1))))"

definition ensure_telegram_space_hierarchy ::
  "env \<Rightarrow> department list \<Rightarrow> spaces_config \<Rightarrow> state \<Rightarrow> (error + string option) \<times> state" where
  "ensure_telegram_space_hierarchy e departments spaces s =
     (case space_cache s ''telegram'' of
        Some cached \<Rightarrow> (Inr cached, s)
      | None \<Rightarrow>
          (case ensure_root_space e departments spaces s of
             (Inl err, s1) \<Rightarrow> (Inl err, s1)
           | (Inr root_space_id, s1) \<Rightarrow>
               (case ensure_telegram_space e departments spaces root_space_id s1 of
                  (Inl err, s2) \<Rightarrow> (Inl err, s2)
                | (Inr telegram_space_id, s2) \<Rightarrow>
                    (Inr telegram_space_id,
                     s2\<lparr>space_cache := (space_cache s2)(''telegram'' \<mapsto> telegram_space_id)\<rparr>))))"

definition add_room_to_space ::
  "env \<Rightarrow> string option \<Rightarrow> string option \<Rightarrow> string \<Rightarrow> string \<Rightarrow> state \<Rightarrow> state" where
  "add_room_to_space e room_id space_id access_token homeserver s =
     (let state_data = JObj
            [(''via'', JList [JStr ''localhost'']),
             (''order'', JStr (str_int (loop_time_ms e (calls s))))]
      in snd (http e \<lparr>server = homeserver,
                       endpoint = SpaceChild (str_opt space_id) (str_opt room_id),
                       bearer = access_token, body = state_data\<rparr> s))"

text \<open>
  The loop of \<^verbatim>\<open>invite_support_users_to_room\<close>. The \<^verbatim>\<open>try\<close> encloses the whole
  loop: a status other than 200 is logged and the loop goes on, an exception leaves it.
\<close>

fun invite_loop ::
  "env \<Rightarrow> string option \<Rightarrow> department \<Rightarrow> string \<Rightarrow> string \<Rightarrow> string list \<Rightarrow> state \<Rightarrow> state" where
  "invite_loop e room_id department homeserver access_token [] s = s"
| "invite_loop e room_id department homeserver access_token (user_id # rest) s =
     (if user_id = mx_bot_user_id (dept_matrix department)
      then invite_loop e room_id department homeserver access_token rest s
      else
        let invite_data = JObj [(''user_id'', JStr user_id)]
        in case http e \<lparr>server = homeserver, endpoint = Invite (str_opt room_id),
                         bearer = access_token, body = invite_data\<rparr> s of
             (Response status _, s1) \<Rightarrow>
               invite_loop e room_id department homeserver access_token rest s1
           | (ResponseNull status, s1) \<Rightarrow>
               invite_loop e room_id department homeserver access_token rest s1
           | (Raised, s1) \<Rightarrow> s1)"

definition invite_support_users_to_room ::
  "env \<Rightarrow> string option \<Rightarrow> department \<Rightarrow> string \<Rightarrow> string \<Rightarrow> state \<Rightarrow> state" where
  "invite_support_users_to_room e room_id department homeserver access_token s =
     (let support_users = mx_support_users (dept_matrix department)
      in invite_loop e room_id department homeserver access_token support_users s)"

definition space_room_data :: "department \<Rightarrow> user \<Rightarrow> json" where
  "space_room_data department telegram_user =
     (let user_display = py_or (tg_first_name telegram_user)
                           (py_or (tg_username telegram_user)
                              (''User_'' @ str_int (tg_id telegram_user)));
          conversation_id = ''tg'' @ str_int (tg_id telegram_user);
          room_name = user_display @ '' (Telegram) - '' @ dept_name department @
                      '' #'' @ conversation_id
      in JObj
           [(''name'', JStr room_name),
            (''topic'', JStr (''Telegram conversation with '' @
                              py_or (tg_username telegram_user) (str_int (tg_id telegram_user)) @
                              '' - '' @ dept_name department)),
            (''preset'', JStr ''private_chat''),
            (''creation_content'', JObj [(''m.federate'', JBool False)])])"

definition create_telegram_room_in_space ::
  "env \<Rightarrow> department list \<Rightarrow> spaces_config \<Rightarrow> department \<Rightarrow> user \<Rightarrow> state \<Rightarrow>
   string option \<times> state" where
  "create_telegram_room_in_space e departments spaces department telegram_user s =
     (let homeserver = mx_homeserver (dept_matrix department);
          access_token = mx_access_token (dept_matrix department)
      in case ensure_telegram_space_hierarchy e departments spaces s of
           (Inl err, s1) \<Rightarrow> (None, s1)
         | (Inr telegram_space_id, s1) \<Rightarrow>
            (let room_data = space_room_data department telegram_user
             in case http e \<lparr>server = homeserver, endpoint = CreateRoom,
                              bearer = access_token, body = room_data\<rparr> s1 of
                  (Response status room_id, s2) \<Rightarrow>
                    if status = 200 then
                      let s3 = add_room_to_space e room_id telegram_space_id access_token homeserver s2;
                          s4 = invite_support_users_to_room e room_id department homeserver access_token s3
                      in (room_id, s4)
                    else (None, s2)
                | (ResponseNull status, s2) \<Rightarrow>
                    if status = 200 then
                      let s3 = add_room_to_space e None telegram_space_id access_token homeserver s2;
                          s4 = invite_support_users_to_room e None department homeserver access_token s3
                      in (None, s4)
                    else (None, s2)
                | (Raised, s2) \<Rightarrow> (None, s2)))"

definition space_message_data :: "string \<Rightarrow> user \<Rightarrow> json" where
  \<open>space_message_data message telegram_user =
     (let user_display = py_or (tg_first_name telegram_user) ''Unknown'';
          username = py_or (tg_username telegram_user) (str_int (tg_id telegram_user))
      in JObj
            [(''msgtype'', JStr ''m.text''),
             (''body'', JStr (''**'' @ user_display @ ''** (@'' @ username @ ''):'' @ nl @ message)),
             (''format'', JStr ''org.matrix.custom.html''),
             (''formatted_body'', JStr (
                ''<div style="border-left: 3px solid #0088cc; padding-left: 10px; margin: 5px 0;">'' @
                nl @ replicate 20 (CHR '' '') @
                ''<strong style="color: #0088cc;">'' @ space_phone @ '' '' @ user_display @ ''</strong>'' @
                nl @ replicate 20 (CHR '' '') @
                ''<small style="color: #666;">(@'' @ username @ '')</small>'' @
                nl @ replicate 20 (CHR '' '') @ ''<br/>'' @
                nl @ replicate 20 (CHR '' '') @
                ''<div style="margin-top: 5px;">'' @ message @ ''</div>'' @
                nl @ replicate 16 (CHR '' '') @ ''</div>''))])\<close>

definition space_send_matrix_message ::
  "env \<Rightarrow> string \<Rightarrow> string \<Rightarrow> department \<Rightarrow> user \<Rightarrow> state \<Rightarrow> state" where
  "space_send_matrix_message e room_id message department telegram_user s =
     (let homeserver = mx_homeserver (dept_matrix department);
          access_token = mx_access_token (dept_matrix department);
          message_data = space_message_data message telegram_user
      in snd (http e \<lparr>server = homeserver, endpoint = SendMessage room_id,
                       bearer = access_token, body = message_data\<rparr> s))"

definition space_select_department ::
  "env \<Rightarrow> department list \<Rightarrow> spaces_config \<Rightarrow> department \<Rightarrow> user \<Rightarrow> state \<Rightarrow> state" where
  "space_select_department e departments spaces department user s =
     (let user_id = tg_id user;
          (room_id, s1) = create_telegram_room_in_space e departments spaces department user s
      in case room_id of
           Some r \<Rightarrow>
             if r \<noteq> [] then
               let s2 = s1\<lparr>user_sessions := (user_sessions s1)(user_id \<mapsto> Chatting department r)\<rparr>;
                   confirmation_message =
                     space_check @ '' Connected to '' @ dept_icon department @ '' **'' @
                     dept_name department @ ''**'' @ nl @ nl @
                     dept_description department @ nl @ nl @
                     ''You can now send your message and our team will respond shortly!'' @ nl @ nl @
                     space_pin @ '' Your conversation is organized in the **Telegram Support Space**'';
                   s3 = tg (Respond confirmation_message None) s2;
                   initial_message =
                     ''New Telegram conversation started with user '' @
                     py_or (tg_first_name user) ''Unknown'' @
                     '' (@'' @ py_or (tg_username user) (str_int (tg_id user)) @ '')''
               in space_send_matrix_message e r initial_message department user s3
             else tg (Respond (space_cross @
                    '' Sorry, I couldn't connect you to that department. Please try again later.'') None) s1
         | None \<Rightarrow> tg (Respond (space_cross @
                    '' Sorry, I couldn't connect you to that department. Please try again later.'') None) s1)"

definition space_handle_start_command ::
  "env \<Rightarrow> department list \<Rightarrow> spaces_config \<Rightarrow> user \<Rightarrow> string option \<Rightarrow> state \<Rightarrow> state" where
  "space_handle_start_command e departments spaces user department_id s =
     (let user_id = tg_id user
      in case (case department_id of
                 None \<Rightarrow> None
               | Some i \<Rightarrow> if i = [] then None else get_department_by_id departments i) of
           Some department \<Rightarrow> space_select_department e departments spaces department user s
         | None \<Rightarrow>
             let welcome_message =
                   space_wave @ '' Welcome '' @ py_or (tg_first_name user) ''there'' @ ''!'' @ nl @ nl @
                   ''I'm your support bot. Please select the department you'd like to contact:'';
                 keyboard = get_departments_keyboard departments;
                 s1 = tg (Respond welcome_message (Some keyboard)) s
             in s1\<lparr>user_sessions := (user_sessions s1)(user_id \<mapsto> SelectingDepartment)\<rparr>)"

definition space_handle_callback_query ::
  "env \<Rightarrow> department list \<Rightarrow> spaces_config \<Rightarrow> user \<Rightarrow> string \<Rightarrow> state \<Rightarrow> state" where
  "space_handle_callback_query e departments spaces user data s =
     (if startswith data ''dept_'' then
        let department_id = drop 5 data
        in case get_department_by_id departments department_id of
             Some department \<Rightarrow>
               space_select_department e departments spaces department user
                 (tg (Edit (''Connecting you to '' @ dept_icon department @ '' '' @
                            dept_name department @ ''...'')) s)
           | None \<Rightarrow> tg (Edit (space_cross @ '' Department not found. Please try again.'')) s
      else s)"

definition space_handle_message ::
  "env \<Rightarrow> department list \<Rightarrow> spaces_config \<Rightarrow> user \<Rightarrow> string \<Rightarrow> state \<Rightarrow> state" where
  "space_handle_message e departments spaces user message_text s =
     (case user_sessions s (tg_id user) of
        Some (Chatting department room_id) \<Rightarrow>
          space_send_matrix_message e room_id message_text department user s
      | Some SelectingDepartment \<Rightarrow> space_handle_start_command e departments spaces user None s
      | None \<Rightarrow> space_handle_start_command e departments spaces user None s)"

definition space_start_handler ::
  "env \<Rightarrow> department list \<Rightarrow> spaces_config \<Rightarrow> user \<Rightarrow> string \<Rightarrow> state \<Rightarrow> state" where
  "space_start_handler e departments spaces user command_text s =
     (let parts = split_space_1 command_text;
          department_id = (if length parts > 1 then Some (parts ! 1) else None)
      in space_handle_start_command e departments spaces user department_id s)"

definition space_message_handler ::
  "env \<Rightarrow> department list \<Rightarrow> spaces_config \<Rightarrow> user \<Rightarrow> string \<Rightarrow> state \<Rightarrow> state" where
  "space_message_handler e departments spaces user message_text s =
     (if startswith message_text ''/'' then s
      else space_handle_message e departments spaces user message_text s)"

section \<open>telegram-department-bot.py: TelegramDepartmentBot\<close>

abbreviation bot_tools :: string where
  "bot_tools \<equiv> [CHR 0xF0, CHR 0x9F, CHR 0x9B, CHR 0xA0, CHR 0xEF, CHR 0xB8, CHR 0x8F]"

abbreviation bot_money :: string where
  "bot_money \<equiv> [CHR 0xF0, CHR 0x9F, CHR 0x92, CHR 0xB0]"

abbreviation bot_check :: string where
  "bot_check \<equiv> [CHR 0xE2, CHR 0x9C, CHR 0x85]"

abbreviation bot_info :: string where
  "bot_info \<equiv> [CHR 0xE2, CHR 0x84, CHR 0xB9, CHR 0xEF, CHR 0xB8, CHR 0x8F]"

abbreviation bot_wave :: string where
  "bot_wave \<equiv> [CHR 0xF0, CHR 0x9F, CHR 0x91, CHR 0x8B]"

abbreviation bot_cross :: string where
  "bot_cross \<equiv> [CHR 0xE2, CHR 0x9D, CHR 0x8C]"

text \<open>
  \<^verbatim>\<open>s.replace(old, new)\<close>: every occurrence, left to right, without overlap. With
  an empty \<open>old\<close> Python puts \<open>new\<close> before every character and at the end.
\<close>

function py_replace :: "string \<Rightarrow> string \<Rightarrow> string \<Rightarrow> string" where
  "py_replace s old new =
     (if old = [] then new @ concat (map (\<lambda>c. c # new) s)
      else if s = [] then []
      else if startswith s old then new @ py_replace (drop (length old) s) old new
      else hd s # py_replace (tl s) old new)"
  by pat_completeness auto
termination
  by (relation "measure (\<lambda>(s, old, new). length s)") auto

declare py_replace.simps [simp del]

text \<open>The dictionary \<^verbatim>\<open>self.departments\<close> of the constructor, in its order.\<close>

record bot_department =
  bd_name :: string
  bd_description :: string
  bd_matrix_users :: "string list"
  bd_space_name :: string

definition bot_departments :: "(string \<times> bot_department) list" where
  "bot_departments =
     [(''technical'',
       \<lparr>bd_name = bot_tools @ '' Technical Support'',
        bd_description = ''Technical issues, bugs, account problems'',
        bd_matrix_users = [''@admin:localhost'', ''@support:localhost''],
        bd_space_name = ''Telegram - Technical Support''\<rparr>),
      (''commerce'',
       \<lparr>bd_name = bot_money @ '' Commerce/Sales'',
        bd_description = ''Product information, pricing, purchases'',
        bd_matrix_users = [''@admin:localhost'', ''@support:localhost''],
        bd_space_name = ''Telegram - Commerce''\<rparr>),
      (''verification'',
       \<lparr>bd_name = bot_check @ '' Verification'',
        bd_description = ''Account verification, identity confirmation'',
        bd_matrix_users = [''@admin:localhost'', ''@support:localhost''],
        bd_space_name = ''Telegram - Verification''\<rparr>),
      (''general'',
       \<lparr>bd_name = bot_info @ '' General Inquiry'',
        bd_description = ''General questions and support'',
        bd_matrix_users = [''@admin:localhost'', ''@support:localhost''],
        bd_space_name = ''Telegram - General''\<rparr>)]"

text \<open>A value of \<^verbatim>\<open>user_sessions\<close> in this script.\<close>

record bot_session =
  s_department :: string
  s_department_name :: string
  s_chat_id :: int
  s_username :: string
  s_first_name :: string
  s_last_name :: string
  s_started_at :: string
  s_conversation_id :: string

text \<open>
  The object state of \<^verbatim>\<open>TelegramDepartmentBot\<close> (\<^verbatim>\<open>matrix_token\<close> and
  \<^verbatim>\<open>matrix_homeserver\<close> are set by \<^verbatim>\<open>initialize_matrix_session\<close>) with the two
  traces.
\<close>

record bot_state =
  bot_user_sessions :: "int \<rightharpoonup> bot_session"
  matrix_token :: string
  matrix_homeserver :: string
  bot_calls :: "http_call list"
  bot_sent :: "tg_action list"

definition bot_http :: "env \<Rightarrow> http_call \<Rightarrow> bot_state \<Rightarrow> http_response \<times> bot_state" where
  "bot_http e c s = (respond e (bot_calls s) c, s\<lparr>bot_calls := bot_calls s @ [c]\<rparr>)"

definition bot_tg :: "tg_action \<Rightarrow> bot_state \<Rightarrow> bot_state" where
  "bot_tg a s = s\<lparr>bot_sent := bot_sent s @ [a]\<rparr>"

definition start_command :: "user \<Rightarrow> bot_state \<Rightarrow> bot_state" where
  "start_command user s =
     (let keyboard = map (\<lambda>(dept_id, dept_info). [(bd_name dept_info, ''dept_'' @ dept_id)])
                       bot_departments;
          welcome_message =
            bot_wave @ '' Welcome to Support, '' @ str_opt (tg_first_name user) @ ''!'' @ nl @ nl @
            ''Please select the department that best matches your inquiry:'' @ nl @ nl @
            bot_tools @ '' **Technical Support** - Technical issues, bugs, account problems'' @ nl @
            bot_money @ '' **Commerce/Sales** - Product information, pricing, purchases'' @ nl @
            bot_check @ '' **Verification** - Account verification, identity confirmation'' @ nl @
            bot_info @ '' **General Inquiry** - General questions and support'' @ nl @ nl @
            ''After selecting a department, you'll be connected with our support team.''
      in bot_tg (ReplyText welcome_message (Some keyboard) (Some ''Markdown'')) s)"

text \<open>
  \<open>now\<close> is \<^verbatim>\<open>datetime.now().isoformat()\<close> and \<open>uuid4\<close> is
  \<^verbatim>\<open>str(uuid.uuid4())\<close>, both read when the callback runs.
\<close>

definition department_callback ::
  "user \<Rightarrow> int \<Rightarrow> string \<Rightarrow> string \<Rightarrow> string \<Rightarrow> bot_state \<Rightarrow> bot_state" where
  "department_callback user chat_id data now uuid4 s =
     (let s0 = bot_tg Answer s;
          dept_id = py_replace data ''dept_'' []
      in case map_of bot_departments dept_id of
           None \<Rightarrow>
             bot_tg (EditMessageText
               (bot_cross @ '' Invalid department selection. Please try again with /start'') None) s0
         | Some dept_info \<Rightarrow>
            (let s1 = s0\<lparr>bot_user_sessions := (bot_user_sessions s0)(tg_id user \<mapsto>
                         \<lparr>s_department = dept_id,
                          s_department_name = bd_name dept_info,
                          s_chat_id = chat_id,
                          s_username = py_or (tg_username user) (''user_'' @ str_int (tg_id user)),
                          s_first_name = py_or (tg_first_name user) ''Unknown'',
                          s_last_name = py_or (tg_last_name user) [],
                          s_started_at = now,
                          s_conversation_id = take 8 uuid4\<rparr>)\<rparr>;
                 success_message =
                   bot_check @ '' **Department Selected: '' @ bd_name dept_info @ ''**'' @ nl @ nl @
                   ''You've been connected to our '' @
                   py_replace (py_replace (py_replace (py_replace (bd_name dept_info)
                     (bot_tools @ '' '') []) (bot_money @ '' '') []) (bot_check @ '' '') [])
                     (bot_info @ '' '') [] @
                   '' team.'' @ nl @ nl @
                   ''**Please send your message now** and our support team will respond shortly. '' @
                   ''Feel free to include any relevant details about your inquiry.'' @ nl @ nl @
                   ''_Note: Your first message will create a secure support room '' @
                   ''where our team can assist you._''
             in bot_tg (EditMessageText success_message (Some ''Markdown'')) s1))"

definition invite_user_to_room ::
  "env \<Rightarrow> string option \<Rightarrow> string \<Rightarrow> bot_state \<Rightarrow> bot_state" where
  "invite_user_to_room e room_id user_id s =
     (let invite_data = JObj [(''user_id'', JStr user_id)]
      in snd (bot_http e \<lparr>server = matrix_homeserver s, endpoint = Invite (str_opt room_id),
                           bearer = matrix_token s, body = invite_data\<rparr> s))"

definition bot_room_data :: "int \<Rightarrow> string \<Rightarrow> bot_session \<Rightarrow> bot_department \<Rightarrow> json" where
  "bot_room_data telegram_user_id department_id user_session dept_info =
     (let room_name = s_username user_session @ '' (Telegram) - '' @ bd_name dept_info @
                      '' #'' @ s_conversation_id user_session
      in JObj
           [(''visibility'', JStr ''private''),
            (''preset'', JStr ''private_chat''),
            (''name'', JStr room_name),
            (''topic'', JStr (''Support conversation with '' @ s_first_name user_session @
                              '' from Telegram - '' @ bd_name dept_info)),
            (''initial_state'', JList
              [JObj [(''type'', JStr ''m.room.power_levels''),
                     (''content'', JObj
                       [(''users'', JObj [(''@admin:localhost'', JInt 100),
                                          (''@support:localhost'', JInt 50)]),
                        (''users_default'', JInt 0),
                        (''events_default'', JInt 0),
                        (''state_default'', JInt 50),
                        (''invite'', JInt 50),
                        (''kick'', JInt 50),
                        (''ban'', JInt 50),
                        (''redact'', JInt 50)])],
               JObj [(''type'', JStr ''fi.mau.telegram.department''),
                     (''state_key'', JStr []),
                     (''content'', JObj
                       [(''department_id'', JStr department_id),
                        (''department_name'', JStr (bd_name dept_info)),
                        (''telegram_user_id'', JInt telegram_user_id),
                        (''conversation_id'', JStr (s_conversation_id user_session)),
                        (''created_at'', JStr (s_started_at user_session))])]])])"

text \<open>
  \<^verbatim>\<open>data['room_id']\<close> of an answer without that member raises \<^verbatim>\<open>KeyError\<close>,
  which the method's \<^verbatim>\<open>except\<close> turns into \<^verbatim>\<open>None\<close>, as it does for a user
  without session and for an unknown department. For an answer whose member is
  \<^verbatim>\<open>null\<close> nothing is raised: the staff is invited to the room \<^verbatim>\<open>None\<close> and
  \<^verbatim>\<open>None\<close> is returned.
\<close>

definition bot_create_matrix_room ::
  "env \<Rightarrow> int \<Rightarrow> string \<Rightarrow> bot_state \<Rightarrow> string option \<times> bot_state" where
  "bot_create_matrix_room e telegram_user_id department_id s =
     (case bot_user_sessions s telegram_user_id of
        None \<Rightarrow> (None, s)
      | Some user_session \<Rightarrow>
         (case map_of bot_departments department_id of
            None \<Rightarrow> (None, s)
          | Some dept_info \<Rightarrow>
             (let room_data = bot_room_data telegram_user_id department_id user_session dept_info
              in case bot_http e \<lparr>server = matrix_homeserver s, endpoint = CreateRoom,
                                   bearer = matrix_token s, body = room_data\<rparr> s of
                   (Response status room, s1) \<Rightarrow>
                     if status = 200 then
                       (case room of
                          None \<Rightarrow> (None, s1)
                        | Some room_id \<Rightarrow>
                            (Some room_id,
                             fold (invite_user_to_room e (Some room_id)) (bd_matrix_users dept_info)
                               s1))
                     else (None, s1)
                 | (ResponseNull status, s1) \<Rightarrow>
                     if status = 200
                     then (None, fold (invite_user_to_room e None) (bd_matrix_users dept_info) s1)
                     else (None, s1)
                 | (Raised, s1) \<Rightarrow> (None, s1))))"

definition bot_handle_message :: "user \<Rightarrow> string \<Rightarrow> bot_state \<Rightarrow> bot_state" where
  "bot_handle_message user text s =
     (if bot_user_sessions s (tg_id user) = None
      then bot_tg (ReplyText (bot_wave @
             '' Please start with /start to select a department and connect with our support team.'')
             None None) s
      else s)"

section \<open>Vocabulary of the statements\<close>

text \<open>The requests that were made between an earlier state and a later one.\<close>

definition new_calls :: "state \<Rightarrow> state \<Rightarrow> http_call list" where
  "new_calls s s' = drop (length (calls s)) (calls s')"

definition bot_new_calls :: "bot_state \<Rightarrow> bot_state \<Rightarrow> http_call list" where
  "bot_new_calls s s' = drop (length (bot_calls s)) (bot_calls s')"

text \<open>The room-creation requests of a trace.\<close>

definition create_requests :: "http_call list \<Rightarrow> http_call list" where
  "create_requests cs = filter (\<lambda>c. endpoint c = CreateRoom) cs"

text \<open>A request made with a department's homeserver and token.\<close>

definition request :: "department \<Rightarrow> endpoint \<Rightarrow> json \<Rightarrow> http_call" where
  "request department ep b =
     \<lparr>server = mx_homeserver (dept_matrix department), endpoint = ep,
      bearer = mx_access_token (dept_matrix department), body = b\<rparr>"

text \<open>An answer that the scripts treat as a failure: any status but 200, or an exception.\<close>

definition failed :: "http_response \<Rightarrow> bool" where
  "failed r =
     (case r of
        Response status _ \<Rightarrow> status \<noteq> 200
      | ResponseNull status \<Rightarrow> status \<noteq> 200
      | Raised \<Rightarrow> True)"

text \<open>A member of a JSON object.\<close>

definition json_get :: "json \<Rightarrow> string \<Rightarrow> json option" where
  "json_get j k = (case j of JObj members \<Rightarrow> map_of members k | _ \<Rightarrow> None)"

text \<open>The content of the \<^verbatim>\<open>m.room.power_levels\<close> event of a creation payload, if any.\<close>

definition power_levels :: "json \<Rightarrow> json option" where
  "power_levels room_data =
     (case json_get room_data ''initial_state'' of
        Some (JList events) \<Rightarrow>
          (case find (\<lambda>ev. json_get ev ''type'' = Some (JStr ''m.room.power_levels'')) events of
             Some ev \<Rightarrow> json_get ev ''content''
           | None \<Rightarrow> None)
      | _ \<Rightarrow> None)"

text \<open>The invitation of one user to a room, as both invite loops send it.\<close>

definition invitation :: "string \<Rightarrow> string \<Rightarrow> string option \<Rightarrow> string \<Rightarrow> http_call" where
  "invitation hs token room user_id =
     \<lparr>server = hs, endpoint = Invite (str_opt room), bearer = token,
      body = JObj [(''user_id'', JStr user_id)]\<rparr>"

text \<open>A session entry in the state \<^verbatim>\<open>chatting\<close>.\<close>

definition chatting :: "session option \<Rightarrow> bool" where
  "chatting x = (case x of Some (Chatting department room_id) \<Rightarrow> True | _ \<Rightarrow> False)"

text \<open>One run of a handler of the space integration, and a sequence of them.\<close>

datatype handler_run =
    StartHandler user string
  | CallbackHandler user string
  | MessageHandler user string

fun space_run ::
  "env \<Rightarrow> department list \<Rightarrow> spaces_config \<Rightarrow> handler_run \<Rightarrow> state \<Rightarrow> state" where
  "space_run e departments spaces (StartHandler user text) s =
     space_start_handler e departments spaces user text s"
| "space_run e departments spaces (CallbackHandler user data) s =
     space_handle_callback_query e departments spaces user data s"
| "space_run e departments spaces (MessageHandler user text) s =
     space_message_handler e departments spaces user text s"

section \<open>Example values\<close>

definition ada :: user where
  "ada = \<lparr>tg_id = 42, tg_first_name = Some ''Ada'', tg_username = Some ''ada'',
          tg_last_name = None\<rparr>"

definition support :: department where
  "support =
     \<lparr>dept_id = ''support'', dept_name = ''Support'', dept_icon = ''S'',
      dept_description = ''General help'',
      dept_matrix = \<lparr>mx_homeserver = ''http://localhost:8008'', mx_access_token = ''token1'',
                     mx_bot_user_id = ''@bot:localhost'',
                     mx_support_users = [''@alice:localhost'', ''@bot:localhost'',
                                         ''@bob:localhost'']\<rparr>\<rparr>"

definition sales :: department where
  "sales =
     \<lparr>dept_id = ''sales'', dept_name = ''Sales'', dept_icon = ''$'',
      dept_description = ''Orders and prices'',
      dept_matrix = \<lparr>mx_homeserver = ''http://localhost:8008'', mx_access_token = ''token2'',
                     mx_bot_user_id = ''@bot:localhost'',
                     mx_support_users = [''@carol:localhost'']\<rparr>\<rparr>"

definition example_spaces :: spaces_config where
  "example_spaces =
     \<lparr>rootSpace = \<lparr>cfg_id = ''root'', cfg_name = ''Customer Support'', cfg_topic = ''All channels''\<rparr>,
      communicationChannels =
        [\<lparr>cfg_id = ''web'', cfg_name = ''Web'', cfg_topic = ''Widget''\<rparr>,
         \<lparr>cfg_id = ''telegram'', cfg_name = ''Telegram'', cfg_topic = ''Telegram chats''\<rparr>]\<rparr>"

text \<open>
  A server that answers every request with 200 and names a room after the number of
  requests made before; one that answers 500 to everything; one that cannot be reached;
  one that answers the first request only; one that refuses every invitation; one that
  raises on every invitation.
\<close>

definition numbering :: env where
  "numbering = \<lparr>respond = (\<lambda>h c. Response 200 (Some (''!r'' @ str_nat (length h)))),
                loop_time_ms = (\<lambda>h. 1000)\<rparr>"

definition refusing :: env where
  "refusing = \<lparr>respond = (\<lambda>h c. Response 500 None), loop_time_ms = (\<lambda>h. 1000)\<rparr>"

definition unreachable :: env where
  "unreachable = \<lparr>respond = (\<lambda>h c. Raised), loop_time_ms = (\<lambda>h. 1000)\<rparr>"

definition first_only :: env where
  "first_only = \<lparr>respond = (\<lambda>h c. if h = [] then Response 200 (Some ''!r0'')
                                     else Response 500 None),
                 loop_time_ms = (\<lambda>h. 1000)\<rparr>"

definition invites_refused :: env where
  "invites_refused =
     \<lparr>respond = (\<lambda>h c. case endpoint c of
                           Invite r \<Rightarrow> Response 403 None
                         | _ \<Rightarrow> Response 200 (Some (''!r'' @ str_nat (length h)))),
      loop_time_ms = (\<lambda>h. 1000)\<rparr>"

definition invites_unreachable :: env where
  "invites_unreachable =
     \<lparr>respond = (\<lambda>h c. case endpoint c of
                           Invite r \<Rightarrow> Raised
                         | _ \<Rightarrow> Response 200 (Some (''!r'' @ str_nat (length h)))),
      loop_time_ms = (\<lambda>h. 1000)\<rparr>"

definition initial :: state where
  "initial = \<lparr>user_sessions = Map.empty, space_cache = Map.empty, calls = [], sent = []\<rparr>"

definition chatting_with_support :: state where
  "chatting_with_support =
     \<lparr>user_sessions = [42 \<mapsto> Chatting support ''!r1''], space_cache = Map.empty,
      calls = [], sent = []\<rparr>"

text \<open>A state whose channel space is resolved already.\<close>

definition resolved :: state where
  "resolved = \<lparr>user_sessions = Map.empty, space_cache = [''telegram'' \<mapsto> Some ''!s1''],
             calls = [], sent = []\<rparr>"

text \<open>Ada chatting with Support in the space integration, the channel space resolved.\<close>

definition chatting_in_space :: state where
  "chatting_in_space =
     \<lparr>user_sessions = [42 \<mapsto> Chatting support ''!r1''],
      space_cache = [''telegram'' \<mapsto> Some ''!s1''], calls = [], sent = []\<rparr>"

definition bot_initial :: bot_state where
  "bot_initial = \<lparr>bot_user_sessions = Map.empty, matrix_token = ''token0'',
                  matrix_homeserver = ''http://localhost:8008'', bot_calls = [], bot_sent = []\<rparr>"

text \<open>The bot after Ada chose General Inquiry.\<close>

definition general_inquiry :: bot_department where
  "general_inquiry =
     \<lparr>bd_name = bot_info @ '' General Inquiry'',
      bd_description = ''General questions and support'',
      bd_matrix_users = [''@admin:localhost'', ''@support:localhost''],
      bd_space_name = ''Telegram - General''\<rparr>"

definition ada_session :: bot_session where
  "ada_session =
     \<lparr>s_department = ''general'', s_department_name = bot_info @ '' General Inquiry'',
      s_chat_id = 42, s_username = ''ada'', s_first_name = ''Ada'', s_last_name = [],
      s_started_at = ''2024-05-01T10:00:00'', s_conversation_id = ''1b9d6bcd''\<rparr>"

definition bot_selected :: bot_state where
  "bot_selected = \<lparr>bot_user_sessions = [42 \<mapsto> ada_session], matrix_token = ''token0'',
                   matrix_homeserver = ''http://localhost:8008'', bot_calls = [], bot_sent = []\<rparr>"

section \<open>Effects of the primitives\<close>

lemma tg_fields [simp]:
  "user_sessions (tg a s) = user_sessions s"
  "space_cache (tg a s) = space_cache s"
  "calls (tg a s) = calls s"
  "sent (tg a s) = sent s @ [a]"
  by (simp_all add: tg_def)

lemma http_fields [simp]:
  "fst (http e c s) = respond e (calls s) c"
  "user_sessions (snd (http e c s)) = user_sessions s"
  "space_cache (snd (http e c s)) = space_cache s"
  "calls (snd (http e c s)) = calls s @ [c]"
  "sent (snd (http e c s)) = sent s"
  by (simp_all add: http_def)

lemma bot_tg_fields [simp]:
  "bot_user_sessions (bot_tg a s) = bot_user_sessions s"
  "matrix_token (bot_tg a s) = matrix_token s"
  "matrix_homeserver (bot_tg a s) = matrix_homeserver s"
  "bot_calls (bot_tg a s) = bot_calls s"
  "bot_sent (bot_tg a s) = bot_sent s @ [a]"
  by (simp_all add: bot_tg_def)

lemma bot_http_fields [simp]:
  "fst (bot_http e c s) = respond e (bot_calls s) c"
  "bot_user_sessions (snd (bot_http e c s)) = bot_user_sessions s"
  "matrix_token (snd (bot_http e c s)) = matrix_token s"
  "matrix_homeserver (snd (bot_http e c s)) = matrix_homeserver s"
  "bot_calls (snd (bot_http e c s)) = bot_calls s @ [c]"
  "bot_sent (snd (bot_http e c s)) = bot_sent s"
  by (simp_all add: bot_http_def)

section \<open>Requests made by the router\<close>

lemma invite_to_room_eq:
  "invite_to_room e room_id user_id d s =
     s\<lparr>calls := calls s @ [request d (Invite (str_opt room_id)) (JObj [(''user_id'', JStr user_id)])]\<rparr>"
  by (simp add: invite_to_room_def http_def request_def)

lemma router_send_matrix_message_eq:
  "router_send_matrix_message e room_id message d u s =
     s\<lparr>calls := calls s @ [request d (SendMessage room_id) (router_message_data message u)]\<rparr>"
  by (simp add: router_send_matrix_message_def http_def request_def)

lemma router_create_matrix_room_eq:
  "router_create_matrix_room e d u s =
     (case respond e (calls s) (request d CreateRoom (router_room_data d u)) of
        Response status room_id \<Rightarrow>
          if status = 200
          then (room_id, s\<lparr>calls := calls s @
                   [request d CreateRoom (router_room_data d u),
                    request d (Invite (str_opt room_id))
                      (JObj [(''user_id'', JStr (mx_bot_user_id (dept_matrix d)))])]\<rparr>)
          else (None, s\<lparr>calls := calls s @ [request d CreateRoom (router_room_data d u)]\<rparr>)
      | ResponseNull status \<Rightarrow>
          if status = 200
          then (None, s\<lparr>calls := calls s @
                   [request d CreateRoom (router_room_data d u),
                    request d (Invite ''None'')
                      (JObj [(''user_id'', JStr (mx_bot_user_id (dept_matrix d)))])]\<rparr>)
          else (None, s\<lparr>calls := calls s @ [request d CreateRoom (router_room_data d u)]\<rparr>)
      | Raised \<Rightarrow> (None, s\<lparr>calls := calls s @ [request d CreateRoom (router_room_data d u)]\<rparr>))"
  by (simp add: router_create_matrix_room_def invite_to_room_eq http_def request_def str_opt_def
           split: http_response.split)

lemma router_handle_start_command_None:
  "router_handle_start_command e departments u None s =
     s\<lparr>user_sessions := (user_sessions s)(tg_id u \<mapsto> SelectingDepartment),
       sent := sent s @ [Respond (router_wave @ '' Welcome '' @ py_or (tg_first_name u) ''there'' @ ''!'' @ nl @ nl @
                   ''I'm your support bot. Please select the department you'd like to contact:'')
                   (Some (get_departments_keyboard departments))]\<rparr>"
  by (simp add: router_handle_start_command_def tg_def)

lemma router_handle_start_command_unknown:
  "get_department_by_id departments i = None \<Longrightarrow>
   router_handle_start_command e departments u (Some i) s =
     router_handle_start_command e departments u None s"
  by (simp add: router_handle_start_command_def)

lemma router_handle_message_chatting:
  "user_sessions t (tg_id u) = Some (Chatting d r) \<Longrightarrow>
   router_handle_message e departments u m t =
     t\<lparr>calls := calls t @ [request d (SendMessage r) (router_message_data m u)]\<rparr>"
  by (simp add: router_handle_message_def router_send_matrix_message_eq)

lemma router_fold_chatting:
  "user_sessions t (tg_id u) = Some (Chatting d r) \<Longrightarrow>
   fold (router_handle_message e departments u) texts t =
     t\<lparr>calls := calls t @ map (\<lambda>m. request d (SendMessage r) (router_message_data m u)) texts\<rparr>"
proof (induction texts arbitrary: t)
  case Nil
  then show ?case by simp
next
  case (Cons m texts)
  let ?t = "t\<lparr>calls := calls t @ [request d (SendMessage r) (router_message_data m u)]\<rparr>"
  have "user_sessions ?t (tg_id u) = Some (Chatting d r)"
    using Cons.prems by simp
  from Cons.IH [OF this] show ?case
    using Cons.prems by (simp add: router_handle_message_chatting)
qed

section \<open>Requests made by the space integration\<close>

lemma space_send_matrix_message_eq:
  "space_send_matrix_message e room_id message d u s =
     s\<lparr>calls := calls s @ [request d (SendMessage room_id) (space_message_data message u)]\<rparr>"
  by (simp add: space_send_matrix_message_def http_def request_def)

lemma space_handle_start_command_None:
  "space_handle_start_command e departments spaces u None s =
     s\<lparr>user_sessions := (user_sessions s)(tg_id u \<mapsto> SelectingDepartment),
       sent := sent s @ [Respond (space_wave @ '' Welcome '' @ py_or (tg_first_name u) ''there'' @ ''!'' @ nl @ nl @
                   ''I'm your support bot. Please select the department you'd like to contact:'')
                   (Some (get_departments_keyboard departments))]\<rparr>"
  by (simp add: space_handle_start_command_def tg_def)

lemma ensure_root_space_eq:
  "ensure_root_space e (d0 # ds) spaces s =
     (let c = request d0 CreateRoom (space_data (rootSpace spaces));
          s1 = s\<lparr>calls := calls s @ [c]\<rparr>
      in case respond e (calls s) c of
           Response status space_id \<Rightarrow>
             if status = 200 then (Inr space_id, s1)
             else (Inl (Failure (''Failed to create root space: '' @ str_nat status)), s1)
         | ResponseNull status \<Rightarrow>
             if status = 200 then (Inr None, s1)
             else (Inl (Failure (''Failed to create root space: '' @ str_nat status)), s1)
         | Raised \<Rightarrow> (Inl ClientError, s1))"
  by (simp add: ensure_root_space_def http_def request_def Let_def split: http_response.split)

lemma add_space_to_parent_eq:
  "add_space_to_parent e child parent token hs s =
     s\<lparr>calls := calls s @
        [\<lparr>server = hs, endpoint = SpaceChild (str_opt parent) (str_opt child), bearer = token,
          body = JObj [(''via'', JList [JStr ''localhost'']),
                       (''order'', JStr (str_int (loop_time_ms e (calls s))))]\<rparr>]\<rparr>"
  by (simp add: add_space_to_parent_def http_def)

lemma add_room_to_space_eq:
  "add_room_to_space e room space token hs s =
     s\<lparr>calls := calls s @
        [\<lparr>server = hs, endpoint = SpaceChild (str_opt space) (str_opt room), bearer = token,
          body = JObj [(''via'', JList [JStr ''localhost'']),
                       (''order'', JStr (str_int (loop_time_ms e (calls s))))]\<rparr>]\<rparr>"
  by (simp add: add_room_to_space_def http_def)

lemma ensure_telegram_space_eq:
  "find (\<lambda>channel. cfg_id channel = ''telegram'') (communicationChannels spaces) = Some tc \<Longrightarrow>
   ensure_telegram_space e (d0 # ds) spaces root s =
     (let c = request d0 CreateRoom (space_data tc);
          s1 = s\<lparr>calls := calls s @ [c]\<rparr>
      in case respond e (calls s) c of
           Response status space_id \<Rightarrow>
             if status = 200
             then (Inr space_id,
                   s\<lparr>calls := calls s @ [c, request d0 (SpaceChild (str_opt root) (str_opt space_id))
                      (JObj [(''via'', JList [JStr ''localhost'']),
                             (''order'', JStr (str_int (loop_time_ms e (calls s @ [c]))))])]\<rparr>)
             else (Inl (Failure (''Failed to create Telegram space: '' @ str_nat status)), s1)
         | ResponseNull status \<Rightarrow>
             if status = 200
             then (Inr None,
                   s\<lparr>calls := calls s @ [c, request d0 (SpaceChild (str_opt root) ''None'')
                      (JObj [(''via'', JList [JStr ''localhost'']),
                             (''order'', JStr (str_int (loop_time_ms e (calls s @ [c]))))])]\<rparr>)
             else (Inl (Failure (''Failed to create Telegram space: '' @ str_nat status)), s1)
         | Raised \<Rightarrow> (Inl ClientError, s1))"
  by (simp add: ensure_telegram_space_def add_space_to_parent_eq http_def request_def Let_def
           str_opt_def split: http_response.split)

lemma ensure_root_space_frame:
  "user_sessions (snd (ensure_root_space e departments spaces s)) = user_sessions s"
  "space_cache (snd (ensure_root_space e departments spaces s)) = space_cache s"
  "sent (snd (ensure_root_space e departments spaces s)) = sent s"
  by (simp_all add: ensure_root_space_def http_def Let_def split: list.split http_response.split)

lemma ensure_telegram_space_frame:
  "user_sessions (snd (ensure_telegram_space e departments spaces root s)) = user_sessions s"
  "space_cache (snd (ensure_telegram_space e departments spaces root s)) = space_cache s"
  "sent (snd (ensure_telegram_space e departments spaces root s)) = sent s"
  by (simp_all add: ensure_telegram_space_def add_space_to_parent_eq http_def Let_def
        split: list.split http_response.split option.split)

lemma hierarchy_hit:
  "space_cache s ''telegram'' = Some cached \<Longrightarrow>
   ensure_telegram_space_hierarchy e departments spaces s = (Inr cached, s)"
  by (simp add: ensure_telegram_space_hierarchy_def)

lemma hierarchy_Inr:
  "ensure_telegram_space_hierarchy e departments spaces s = (Inr space, s1) \<Longrightarrow>
   space_cache s1 ''telegram'' = Some space"
  by (auto simp add: ensure_telegram_space_hierarchy_def split: option.splits prod.splits sum.splits)

lemma hierarchy_Inl:
  "ensure_telegram_space_hierarchy e departments spaces s = (Inl err, s1) \<Longrightarrow>
   space_cache s1 = space_cache s"
proof -
  assume a: "ensure_telegram_space_hierarchy e departments spaces s = (Inl err, s1)"
  show ?thesis
  proof (cases "ensure_root_space e departments spaces s")
    case (Pair r t)
    have t: "space_cache t = space_cache s"
      using ensure_root_space_frame(2) [of e departments spaces s] Pair by simp
    show ?thesis
    proof (cases r)
      case (Inl x)
      then show ?thesis using a Pair t
        by (auto simp add: ensure_telegram_space_hierarchy_def split: option.splits)
    next
      case (Inr root)
      obtain r2 t2 where p2: "ensure_telegram_space e departments spaces root t = (r2, t2)"
        by (cases "ensure_telegram_space e departments spaces root t")
      have "space_cache t2 = space_cache t"
        using ensure_telegram_space_frame(2) [of e departments spaces root t] p2 by simp
      then show ?thesis using a Pair t Inr p2
        by (auto simp add: ensure_telegram_space_hierarchy_def split: option.splits sum.splits)
    qed
  qed
qed

lemma hierarchy_frame:
  "user_sessions (snd (ensure_telegram_space_hierarchy e departments spaces s)) = user_sessions s"
  "sent (snd (ensure_telegram_space_hierarchy e departments spaces s)) = sent s"
proof -
  obtain r t where p: "ensure_root_space e departments spaces s = (r, t)"
    by (cases "ensure_root_space e departments spaces s")
  have t: "user_sessions t = user_sessions s" "sent t = sent s"
    using ensure_root_space_frame [of e departments spaces s] p by simp_all
  have f: "\<And>root. user_sessions (snd (ensure_telegram_space e departments spaces root t)) = user_sessions s
      \<and> sent (snd (ensure_telegram_space e departments spaces root t)) = sent s"
    using ensure_telegram_space_frame t by simp
  show "user_sessions (snd (ensure_telegram_space_hierarchy e departments spaces s)) = user_sessions s"
    using p t f
    by (auto simp add: ensure_telegram_space_hierarchy_def split: option.splits sum.splits prod.splits)
      (metis snd_conv)+
  show "sent (snd (ensure_telegram_space_hierarchy e departments spaces s)) = sent s"
    using p t f
    by (auto simp add: ensure_telegram_space_hierarchy_def split: option.splits sum.splits prod.splits)
      (metis snd_conv)+
qed

subsection \<open>The invite loop\<close>

lemma invite_loop_frame:
  "user_sessions (invite_loop e room d hs token users s) = user_sessions s"
  "space_cache (invite_loop e room d hs token users s) = space_cache s"
  "sent (invite_loop e room d hs token users s) = sent s"
  by (induction users arbitrary: s; simp add: http_def Let_def split: http_response.split)+

lemma invite_loop_goes_on:
  assumes "user_id \<noteq> mx_bot_user_id (dept_matrix d)"
    and "respond e (calls s) (invitation hs token room user_id) \<noteq> Raised"
  shows "invite_loop e room d hs token (user_id # users) s =
           invite_loop e room d hs token users
             (s\<lparr>calls := calls s @ [invitation hs token room user_id]\<rparr>)"
  using assms
  by (cases "respond e (calls s) (invitation hs token room user_id)")
    (simp_all add: http_def invitation_def)

lemma invite_loop_stops:
  assumes "user_id \<noteq> mx_bot_user_id (dept_matrix d)"
    and "respond e (calls s) (invitation hs token room user_id) = Raised"
  shows "invite_loop e room d hs token (user_id # users) s =
           s\<lparr>calls := calls s @ [invitation hs token room user_id]\<rparr>"
  using assms by (simp add: http_def invitation_def)

lemma invite_loop_prefix:
  "\<exists>k. calls (invite_loop e room d hs token users s) =
         calls s @ map (invitation hs token room)
           (take k (filter (\<lambda>user_id. user_id \<noteq> mx_bot_user_id (dept_matrix d)) users))"
proof (induction users arbitrary: s)
  case Nil
  then show ?case by simp
next
  case (Cons user_id users)
  show ?case
  proof (cases "user_id = mx_bot_user_id (dept_matrix d)")
    case True
    then show ?thesis using Cons.IH [of s] by simp
  next
    case False
    let ?c = "invitation hs token room user_id"
    let ?s1 = "s\<lparr>calls := calls s @ [?c]\<rparr>"
    show ?thesis
    proof (cases "respond e (calls s) ?c = Raised")
      case True
      have "calls (invite_loop e room d hs token (user_id # users) s) =
              calls s @ map (invitation hs token room)
                (take 1 (filter (\<lambda>user_id. user_id \<noteq> mx_bot_user_id (dept_matrix d)) (user_id # users)))"
        using False by (simp add: invite_loop_stops [OF False True] del: invite_loop.simps)
      then show ?thesis by blast
    next
      case answered: False
      obtain k where k: "calls (invite_loop e room d hs token users ?s1) =
         calls ?s1 @ map (invitation hs token room)
           (take k (filter (\<lambda>user_id. user_id \<noteq> mx_bot_user_id (dept_matrix d)) users))"
        using Cons.IH [of ?s1] by blast
      have "calls (invite_loop e room d hs token (user_id # users) s) =
              calls s @ map (invitation hs token room)
                (take (Suc k) (filter (\<lambda>user_id. user_id \<noteq> mx_bot_user_id (dept_matrix d)) (user_id # users)))"
        using False k by (simp add: invite_loop_goes_on [OF False answered] del: invite_loop.simps)
      then show ?thesis by blast
    qed
  qed
qed

lemma invite_loop_all:
  "(\<And>h c r. endpoint c = Invite r \<Longrightarrow> respond e h c \<noteq> Raised) \<Longrightarrow>
   calls (invite_loop e room d hs token users s) =
     calls s @ map (invitation hs token room)
       (filter (\<lambda>user_id. user_id \<noteq> mx_bot_user_id (dept_matrix d)) users)"
proof (induction users arbitrary: s)
  case Nil
  then show ?case by simp
next
  case (Cons user_id users)
  show ?case
  proof (cases "user_id = mx_bot_user_id (dept_matrix d)")
    case True
    then show ?thesis using Cons by simp
  next
    case False
    let ?c = "invitation hs token room user_id"
    have answered: "respond e (calls s) ?c \<noteq> Raised"
      using Cons.prems [of ?c "str_opt room" "calls s"] by (simp add: invitation_def)
    have ih: "calls (invite_loop e room d hs token users (s\<lparr>calls := calls s @ [?c]\<rparr>)) =
        calls (s\<lparr>calls := calls s @ [?c]\<rparr>) @ map (invitation hs token room)
          (filter (\<lambda>user_id. user_id \<noteq> mx_bot_user_id (dept_matrix d)) users)"
      by (rule Cons.IH) (rule Cons.prems)
    show ?thesis
      using False ih by (simp add: invite_loop_goes_on [OF False answered] del: invite_loop.simps)
  qed
qed

lemma invite_loop_grows:
  "\<exists>more. calls (invite_loop e room d hs token users s) = calls s @ more \<and>
          create_requests more = []"
proof -
  obtain k where "calls (invite_loop e room d hs token users s) =
         calls s @ map (invitation hs token room)
           (take k (filter (\<lambda>user_id. user_id \<noteq> mx_bot_user_id (dept_matrix d)) users))"
    using invite_loop_prefix by blast
  then show ?thesis
    by (simp add: create_requests_def invitation_def filter_empty_conv)
qed

subsection \<open>Room creation in the space\<close>

lemma create_telegram_room_in_space_eq:
  assumes "ensure_telegram_space_hierarchy e departments spaces s = (Inr space, s1)"
  shows "create_telegram_room_in_space e departments spaces d u s =
     (let c = request d CreateRoom (space_room_data d u);
          s2 = s1\<lparr>calls := calls s1 @ [c]\<rparr>
      in case respond e (calls s1) c of
           Response status room \<Rightarrow>
             if status = 200 then
               (room, invite_support_users_to_room e room d (mx_homeserver (dept_matrix d))
                        (mx_access_token (dept_matrix d))
                        (s1\<lparr>calls := calls s1 @ [c,
                            request d (SpaceChild (str_opt space) (str_opt room))
                              (JObj [(''via'', JList [JStr ''localhost'']),
                                     (''order'', JStr (str_int (loop_time_ms e (calls s1 @ [c]))))])]\<rparr>))
             else (None, s2)
         | ResponseNull status \<Rightarrow>
             if status = 200 then
               (None, invite_support_users_to_room e None d (mx_homeserver (dept_matrix d))
                        (mx_access_token (dept_matrix d))
                        (s1\<lparr>calls := calls s1 @ [c,
                            request d (SpaceChild (str_opt space) ''None'')
                              (JObj [(''via'', JList [JStr ''localhost'']),
                                     (''order'', JStr (str_int (loop_time_ms e (calls s1 @ [c]))))])]\<rparr>))
             else (None, s2)
         | Raised \<Rightarrow> (None, s2))"
  using assms
  by (simp add: create_telegram_room_in_space_def add_room_to_space_eq http_def request_def Let_def
        str_opt_def split: http_response.split)

lemma create_telegram_room_in_space_Inl:
  assumes "ensure_telegram_space_hierarchy e departments spaces s = (Inl err, s1)"
  shows "create_telegram_room_in_space e departments spaces d u s = (None, s1)"
  using assms by (simp add: create_telegram_room_in_space_def)

lemma create_telegram_room_in_space_frame:
  "user_sessions (snd (create_telegram_room_in_space e departments spaces d u s)) = user_sessions s"
  "sent (snd (create_telegram_room_in_space e departments spaces d u s)) = sent s"
proof -
  obtain r s1 where p: "ensure_telegram_space_hierarchy e departments spaces s = (r, s1)"
    by (cases "ensure_telegram_space_hierarchy e departments spaces s")
  have f: "user_sessions s1 = user_sessions s" "sent s1 = sent s"
    using hierarchy_frame [of e departments spaces s] p by simp_all
  show "user_sessions (snd (create_telegram_room_in_space e departments spaces d u s)) = user_sessions s"
    using f p
    by (cases r) (simp_all add: create_telegram_room_in_space_eq create_telegram_room_in_space_Inl
        invite_support_users_to_room_def invite_loop_frame Let_def split: http_response.split)
  show "sent (snd (create_telegram_room_in_space e departments spaces d u s)) = sent s"
    using f p
    by (cases r) (simp_all add: create_telegram_room_in_space_eq create_telegram_room_in_space_Inl
        invite_support_users_to_room_def invite_loop_frame Let_def split: http_response.split)
qed

lemma create_telegram_room_in_space_cache:
  "space_cache s ''telegram'' = Some cached \<Longrightarrow>
   space_cache (snd (create_telegram_room_in_space e departments spaces d u s)) = space_cache s"
  by (simp add: create_telegram_room_in_space_eq [OF hierarchy_hit]
        invite_support_users_to_room_def invite_loop_frame Let_def split: http_response.split)

lemma invite_support_users_grows:
  "\<exists>more. calls (invite_support_users_to_room e room d hs token t) = calls t @ more \<and>
          create_requests more = []"
  by (simp add: invite_support_users_to_room_def invite_loop_grows)

lemma space_room_trace:
  assumes "ensure_telegram_space_hierarchy e departments spaces s = (Inr space, s1)"
  shows "\<exists>more. calls (snd (create_telegram_room_in_space e departments spaces d u s)) =
           calls s1 @ request d CreateRoom (space_room_data d u) # more \<and>
           create_requests more = []"
proof -
  let ?c = "request d CreateRoom (space_room_data d u)"
  let ?hs = "mx_homeserver (dept_matrix d)"
  let ?token = "mx_access_token (dept_matrix d)"
  have created: "\<exists>more. calls (invite_support_users_to_room e room d ?hs ?token
                  (s1\<lparr>calls := calls s1 @ [?c, link]\<rparr>)) = calls s1 @ ?c # more \<and>
             create_requests more = []"
    if "\<exists>p c. endpoint link = SpaceChild p c" for room link
  proof -
    obtain more where m: "calls (invite_support_users_to_room e room d ?hs ?token
        (s1\<lparr>calls := calls s1 @ [?c, link]\<rparr>)) = calls (s1\<lparr>calls := calls s1 @ [?c, link]\<rparr>) @ more"
      "create_requests more = []"
      using invite_support_users_grows by blast
    have "calls (invite_support_users_to_room e room d ?hs ?token
        (s1\<lparr>calls := calls s1 @ [?c, link]\<rparr>)) = calls s1 @ ?c # (link # more)"
      using m(1) by simp
    moreover have "create_requests (link # more) = []"
      using m(2) that by (auto simp add: create_requests_def)
    ultimately show ?thesis by blast
  qed
  show ?thesis
  proof (cases "respond e (calls s1) ?c")
    case Raised
    then show ?thesis
      by (simp add: create_telegram_room_in_space_eq [OF assms] create_requests_def)
  next
    case (Response status room)
    show ?thesis
    proof (cases "status = 200")
      case False
      then show ?thesis using Response
        by (simp add: create_telegram_room_in_space_eq [OF assms] create_requests_def)
    next
      case True
      then show ?thesis using Response
        by (simp add: create_telegram_room_in_space_eq [OF assms] Let_def)
          (rule created, simp add: request_def)
    qed
  next
    case (ResponseNull status)
    show ?thesis
    proof (cases "status = 200")
      case False
      then show ?thesis using ResponseNull
        by (simp add: create_telegram_room_in_space_eq [OF assms] create_requests_def)
    next
      case True
      then show ?thesis using ResponseNull
        by (simp add: create_telegram_room_in_space_eq [OF assms] Let_def)
          (rule created, simp add: request_def)
    qed
  qed
qed

lemma space_room_requests:
  assumes "ensure_telegram_space_hierarchy e departments spaces s = (Inr space, s1)"
  shows "create_requests (new_calls s1 (snd (create_telegram_room_in_space e departments spaces d u s))) =
           [request d CreateRoom (space_room_data d u)]"
proof -
  obtain more where "calls (snd (create_telegram_room_in_space e departments spaces d u s)) =
           calls s1 @ request d CreateRoom (space_room_data d u) # more"
      "create_requests more = []"
    using space_room_trace [OF assms] by blast
  then show ?thesis
    by (simp add: new_calls_def create_requests_def request_def)
qed

lemma space_select_department_calls:
  "\<exists>more. calls (space_select_department e departments spaces d u s) =
      calls (snd (create_telegram_room_in_space e departments spaces d u s)) @ more \<and>
      create_requests more = []"
  by (cases "create_telegram_room_in_space e departments spaces d u s")
    (simp add: space_select_department_def space_send_matrix_message_eq create_requests_def
      request_def split: option.split)

lemma calls_grow_after_hierarchy:
  assumes "ensure_telegram_space_hierarchy e departments spaces s = (Inr space, s1)"
  shows "\<exists>more. calls (snd (create_telegram_room_in_space e departments spaces d u s)) = calls s1 @ more"
  using space_room_trace [OF assms] by blast

subsection \<open>The cache entry survives every handler\<close>

lemma space_select_department_cache:
  assumes "space_cache s ''telegram'' = Some cached"
  shows "space_cache (space_select_department e departments spaces d u s) = space_cache s"
proof -
  obtain room s1 where p: "create_telegram_room_in_space e departments spaces d u s = (room, s1)"
    by (cases "create_telegram_room_in_space e departments spaces d u s")
  have "space_cache s1 = space_cache s"
    using create_telegram_room_in_space_cache [OF assms, of e departments spaces d u] p by simp
  then show ?thesis
    by (simp add: space_select_department_def p space_send_matrix_message_eq split: option.split)
qed

lemma space_handle_start_command_cache:
  "space_cache s ''telegram'' = Some cached \<Longrightarrow>
   space_cache (space_handle_start_command e departments spaces u i s) = space_cache s"
  by (simp add: space_handle_start_command_def space_select_department_cache split: option.split)

lemma space_run_cache:
  assumes "space_cache s ''telegram'' = Some cached"
  shows "space_cache (space_run e departments spaces run s) = space_cache s"
proof (cases run)
  case (StartHandler u t)
  then show ?thesis
    using assms by (simp add: space_start_handler_def space_handle_start_command_cache Let_def)
next
  case (CallbackHandler u data)
  have "space_cache (tg a s) ''telegram'' = Some cached" for a
    using assms by simp
  then show ?thesis
    using assms CallbackHandler
    by (simp add: space_handle_callback_query_def space_select_department_cache [where cached = cached]
        split: option.split)
next
  case (MessageHandler u t)
  then show ?thesis
    using assms
    by (simp add: space_message_handler_def space_handle_message_def space_send_matrix_message_eq
        space_handle_start_command_cache split: option.split session.split)
qed

lemma space_runs_cache:
  "space_cache s ''telegram'' = Some cached \<Longrightarrow>
   space_cache (fold (space_run e departments spaces) runs s) = space_cache s"
proof (induction runs arbitrary: s)
  case Nil
  then show ?case by simp
next
  case (Cons run runs)
  have "space_cache (space_run e departments spaces run s) = space_cache s"
    using Cons.prems by (rule space_run_cache)
  then show ?case using Cons by simp
qed

lemma hierarchy_root_failed:
  assumes "space_cache s ''telegram'' = None"
    and "failed (respond e (calls s) (request d0 CreateRoom (space_data (rootSpace spaces))))"
  shows "\<exists>err. fst (ensure_telegram_space_hierarchy e (d0 # ds) spaces s) = Inl err"
  using assms
  by (auto simp add: ensure_telegram_space_hierarchy_def ensure_root_space_eq failed_def Let_def
      split: http_response.splits)

lemma hierarchy_channel_failed:
  assumes "space_cache s ''telegram'' = None"
    and "respond e (calls s) (request d0 CreateRoom (space_data (rootSpace spaces))) = Response 200 root"
    and "find (\<lambda>channel. cfg_id channel = ''telegram'') (communicationChannels spaces) = Some channel"
    and "failed (respond e (calls s @ [request d0 CreateRoom (space_data (rootSpace spaces))])
                   (request d0 CreateRoom (space_data channel)))"
  shows "\<exists>err. fst (ensure_telegram_space_hierarchy e (d0 # ds) spaces s) = Inl err"
  using assms
  by (auto simp add: ensure_telegram_space_hierarchy_def ensure_root_space_eq
      ensure_telegram_space_eq failed_def Let_def
      split: http_response.splits)

lemma space_room_result:
  assumes "ensure_telegram_space_hierarchy e departments spaces s = (Inr space, s1)"
    and "respond e (calls s1) (request d CreateRoom (space_room_data d u)) = Response 200 room"
  shows "fst (create_telegram_room_in_space e departments spaces d u s) = room"
  using assms(2) by (simp add: create_telegram_room_in_space_eq [OF assms(1)] Let_def)

lemma space_room_calls:
  assumes "ensure_telegram_space_hierarchy e departments spaces s = (Inr space, s1)"
    and "respond e (calls s1) (request d CreateRoom (space_room_data d u)) = Response 200 room"
    and "\<And>h c r. endpoint c = Invite r \<Longrightarrow> respond e h c \<noteq> Raised"
  shows "new_calls s1 (snd (create_telegram_room_in_space e departments spaces d u s)) =
           [request d CreateRoom (space_room_data d u),
            request d (SpaceChild (str_opt space) (str_opt room))
              (JObj [(''via'', JList [JStr ''localhost'']),
                     (''order'', JStr (str_int (loop_time_ms e
                        (calls s1 @ [request d CreateRoom (space_room_data d u)]))))])] @
           map (invitation (mx_homeserver (dept_matrix d)) (mx_access_token (dept_matrix d)) room)
             (filter (\<lambda>user_id. user_id \<noteq> mx_bot_user_id (dept_matrix d))
                (mx_support_users (dept_matrix d)))"
  using assms(2)
  by (simp add: create_telegram_room_in_space_eq [OF assms(1)] invite_support_users_to_room_def
      invite_loop_all [OF assms(3)] new_calls_def Let_def)

lemma resolved_hit:
  "ensure_telegram_space_hierarchy e departments spaces resolved = (Inr (Some ''!s1''), resolved)"
  by (simp add: ensure_telegram_space_hierarchy_def resolved_def)

lemma space_select_department_session:
  assumes "ensure_telegram_space_hierarchy e departments spaces s = (Inr space, s1)"
    and "respond e (calls s1) (request d CreateRoom (space_room_data d u)) = Response 200 (Some r)"
    and "r \<noteq> []"
  shows "user_sessions (space_select_department e departments spaces d u s) =
           (user_sessions s)(tg_id u \<mapsto> Chatting d r)"
proof -
  obtain room s2 where p: "create_telegram_room_in_space e departments spaces d u s = (room, s2)"
    by (cases "create_telegram_room_in_space e departments spaces d u s")
  have "room = Some r"
    using space_room_result [OF assms(1) assms(2)] p by simp
  moreover have "user_sessions s2 = user_sessions s"
    using create_telegram_room_in_space_frame(1) [of e departments spaces d u s] p by simp
  ultimately show ?thesis
    using assms(3) by (simp add: space_select_department_def p space_send_matrix_message_eq)
qed

lemma space_message_data_carries_the_text:
  "json_get (space_message_data message u) ''msgtype'' = Some (JStr ''m.text'') \<and>
   json_get (space_message_data message u) ''body'' =
     Some (JStr (''**'' @ py_or (tg_first_name u) ''Unknown'' @ ''** (@'' @
                 py_or (tg_username u) (str_int (tg_id u)) @ ''):'' @ nl @ message))"
  by (simp add: json_get_def space_message_data_def Let_def)

section \<open>Requests and sessions of the bot\<close>

lemma invite_user_to_room_eq:
  "invite_user_to_room e room user_id s =
     s\<lparr>bot_calls := bot_calls s @
        [\<lparr>server = matrix_homeserver s, endpoint = Invite (str_opt room), bearer = matrix_token s,
          body = JObj [(''user_id'', JStr user_id)]\<rparr>]\<rparr>"
  by (simp add: invite_user_to_room_def bot_http_def)

lemma invite_users_fold:
  "fold (invite_user_to_room e room) users s =
     s\<lparr>bot_calls := bot_calls s @
        map (\<lambda>user_id. \<lparr>server = matrix_homeserver s, endpoint = Invite (str_opt room),
                          bearer = matrix_token s, body = JObj [(''user_id'', JStr user_id)]\<rparr>)
          users\<rparr>"
  by (induction users arbitrary: s) (simp_all add: invite_user_to_room_eq)

lemma bot_create_requests:
  assumes "bot_user_sessions b telegram_user_id = Some user_session"
    and "map_of bot_departments department_id = Some dept_info"
  shows "create_requests (bot_new_calls b (snd (bot_create_matrix_room e telegram_user_id department_id b))) =
     [\<lparr>server = matrix_homeserver b, endpoint = CreateRoom, bearer = matrix_token b,
       body = bot_room_data telegram_user_id department_id user_session dept_info\<rparr>]"
  using assms
  by (simp add: bot_create_matrix_room_def bot_http_def invite_users_fold bot_new_calls_def
      create_requests_def Let_def split: http_response.split option.split)

lemma department_callback_known:
  "map_of bot_departments (py_replace data ''dept_'' []) = Some dept_info \<Longrightarrow>
   bot_user_sessions (department_callback u chat_id data now uuid4 b) =
     (bot_user_sessions b)(tg_id u \<mapsto>
        \<lparr>s_department = py_replace data ''dept_'' [],
         s_department_name = bd_name dept_info,
         s_chat_id = chat_id,
         s_username = py_or (tg_username u) (''user_'' @ str_int (tg_id u)),
         s_first_name = py_or (tg_first_name u) ''Unknown'',
         s_last_name = py_or (tg_last_name u) [],
         s_started_at = now,
         s_conversation_id = take 8 uuid4\<rparr>)"
  by (simp add: department_callback_def Let_def)

lemma department_callback_unknown:
  "map_of bot_departments (py_replace data ''dept_'' []) = None \<Longrightarrow>
   bot_user_sessions (department_callback u chat_id data now uuid4 b) = bot_user_sessions b"
  by (simp add: department_callback_def Let_def)

lemma py_replace_dept_general: "py_replace ''dept_general'' ''dept_'' [] = ''general''"
  by (simp add: py_replace.simps startswith_def)

lemma general_known: "map_of bot_departments ''general'' = Some general_inquiry"
  by (simp add: bot_departments_def general_inquiry_def)

section \<open>C1: selecting a department again\<close>

text \<open>
  C1, as the code has it. \<^verbatim>\<open>select_department\<close> never looks at the user's session before
  it provisions: every call of it makes one request for a new conversation room, also when
  the session already holds a room of that department, and an answer 200 with a non-empty
  room id overwrites the session with the new id. In the space integration the same holds
  once the channel space is resolved. Two selections therefore make two creation requests.
\<close>

theorem select_department_creates_each_time:
  "create_requests (new_calls s (router_select_department e d u s)) =
     [request d CreateRoom (router_room_data d u)] \<and>
   (respond e (calls s) (request d CreateRoom (router_room_data d u)) = Response 200 (Some r) \<and>
    r \<noteq> [] \<longrightarrow>
      user_sessions (router_select_department e d u s) =
        (user_sessions s)(tg_id u \<mapsto> Chatting d r)) \<and>
   (ensure_telegram_space_hierarchy e departments spaces s = (Inr space, s1) \<longrightarrow>
      create_requests (new_calls s1 (space_select_department e departments spaces d u s)) =
        [request d CreateRoom (space_room_data d u)]) \<and>
   (ensure_telegram_space_hierarchy e departments spaces s = (Inr space, s1) \<and>
    respond e (calls s1) (request d CreateRoom (space_room_data d u)) = Response 200 (Some r) \<and>
    r \<noteq> [] \<longrightarrow>
      user_sessions (space_select_department e departments spaces d u s) =
        (user_sessions s)(tg_id u \<mapsto> Chatting d r))"
proof (intro conjI impI)
  show "create_requests (new_calls s (router_select_department e d u s)) =
     [request d CreateRoom (router_room_data d u)]"
    by (simp add: router_select_department_def router_create_matrix_room_eq
        router_send_matrix_message_eq new_calls_def create_requests_def request_def
        split: http_response.split option.split)
next
  assume "respond e (calls s) (request d CreateRoom (router_room_data d u)) = Response 200 (Some r) \<and>
    r \<noteq> []"
  then show "user_sessions (router_select_department e d u s) =
        (user_sessions s)(tg_id u \<mapsto> Chatting d r)"
    by (simp add: router_select_department_def router_create_matrix_room_eq
        router_send_matrix_message_eq)
next
  assume a: "ensure_telegram_space_hierarchy e departments spaces s = (Inr space, s1)"
  obtain more where m: "calls (space_select_department e departments spaces d u s) =
      calls (snd (create_telegram_room_in_space e departments spaces d u s)) @ more"
      "create_requests more = []"
    using space_select_department_calls by blast
  obtain mid where mid: "calls (snd (create_telegram_room_in_space e departments spaces d u s)) =
      calls s1 @ mid"
    using calls_grow_after_hierarchy [OF a] by blast
  have "create_requests mid = [request d CreateRoom (space_room_data d u)]"
    using space_room_requests [OF a, of d u] mid by (simp add: new_calls_def)
  then show "create_requests (new_calls s1 (space_select_department e departments spaces d u s)) =
        [request d CreateRoom (space_room_data d u)]"
    using m mid by (simp add: new_calls_def create_requests_def)
next
  assume "ensure_telegram_space_hierarchy e departments spaces s = (Inr space, s1) \<and>
    respond e (calls s1) (request d CreateRoom (space_room_data d u)) = Response 200 (Some r) \<and>
    r \<noteq> []"
  then show "user_sessions (space_select_department e departments spaces d u s) =
        (user_sessions s)(tg_id u \<mapsto> Chatting d r)"
    using space_select_department_session by blast
qed

theorem select_department_creates_each_time_witness:
  "user_sessions chatting_with_support (tg_id ada) = Some (Chatting support ''!r1'') \<and>
   respond numbering (calls chatting_with_support)
       (request support CreateRoom (router_room_data support ada)) = Response 200 (Some ''!r0'') \<and>
   ''!r0'' \<noteq> [] \<and>
   create_requests (new_calls chatting_with_support
       (router_select_department numbering support ada chatting_with_support)) =
     [request support CreateRoom (router_room_data support ada)] \<and>
   user_sessions (router_select_department numbering support ada chatting_with_support) (tg_id ada) =
     Some (Chatting support ''!r0'') \<and>
   user_sessions chatting_in_space (tg_id ada) = Some (Chatting support ''!r1'') \<and>
   ensure_telegram_space_hierarchy numbering [support, sales] example_spaces chatting_in_space =
     (Inr (Some ''!s1''), chatting_in_space) \<and>
   respond numbering (calls chatting_in_space)
       (request support CreateRoom (space_room_data support ada)) = Response 200 (Some ''!r0'') \<and>
   create_requests (new_calls chatting_in_space
       (space_select_department numbering [support, sales] example_spaces support ada
          chatting_in_space)) =
     [request support CreateRoom (space_room_data support ada)] \<and>
   user_sessions (space_select_department numbering [support, sales] example_spaces support ada
                    chatting_in_space) (tg_id ada) =
     Some (Chatting support ''!r0'')"
proof -
  have h0: "user_sessions chatting_with_support (tg_id ada) = Some (Chatting support ''!r1'')"
    "user_sessions chatting_in_space (tg_id ada) = Some (Chatting support ''!r1'')"
    by (simp_all add: chatting_with_support_def chatting_in_space_def ada_def)
  have r: "''!r0'' \<noteq> []"
    by simp
  have h1: "respond numbering (calls chatting_with_support)
       (request support CreateRoom (router_room_data support ada)) = Response 200 (Some ''!r0'')"
    by (simp add: numbering_def chatting_with_support_def str_nat.simps)
  have h2: "ensure_telegram_space_hierarchy numbering [support, sales] example_spaces
      chatting_in_space = (Inr (Some ''!s1''), chatting_in_space)"
    by (simp add: ensure_telegram_space_hierarchy_def chatting_in_space_def)
  have h3: "respond numbering (calls chatting_in_space)
       (request support CreateRoom (space_room_data support ada)) = Response 200 (Some ''!r0'')"
    by (simp add: numbering_def chatting_in_space_def str_nat.simps)
  note t1 = select_department_creates_each_time [where s = chatting_with_support
      and e = numbering and d = support and u = ada and r = "''!r0''"]
  note t2 = select_department_creates_each_time [where e = numbering and d = support and u = ada
      and departments = "[support, sales]" and spaces = example_spaces
      and s = chatting_in_space and space = "Some ''!s1''" and ?s1.0 = chatting_in_space
      and r = "''!r0''"]
  note c1 = t1 [THEN conjunct1]
  note c2 = mp [OF t1 [THEN conjunct2, THEN conjunct1] conjI [OF h1 r]]
  note c3 = mp [OF t2 [THEN conjunct2, THEN conjunct2, THEN conjunct1] h2]
  note c4 = mp [OF t2 [THEN conjunct2, THEN conjunct2, THEN conjunct2] conjI [OF h2 conjI [OF h3 r]]]
  have s1: "user_sessions (router_select_department numbering support ada chatting_with_support)
      (tg_id ada) = Some (Chatting support ''!r0'')"
    by (simp add: c2)
  have s2: "user_sessions (space_select_department numbering [support, sales] example_spaces
      support ada chatting_in_space) (tg_id ada) = Some (Chatting support ''!r0'')"
    by (simp add: c4)
  show ?thesis
    by (intro conjI) (rule h0 r h1 h2 h3 c1 c3 s1 s2)+
qed

text \<open>
  The claim of C1 itself (the second selection returns the same room and only one creation
  request is made in total) fails: with a server that numbers its rooms, Ada's session
  holds \<open>!r0\<close> after the first selection of Support and \<open>!r3\<close> after the second, and two
  creation requests were made.
\<close>

theorem reselecting_creates_a_second_room:
  "user_sessions (router_select_department numbering support ada initial) (tg_id ada) =
     Some (Chatting support ''!r0'') \<and>
   user_sessions (router_select_department numbering support ada
                   (router_select_department numbering support ada initial)) (tg_id ada) =
     Some (Chatting support ''!r3'') \<and>
   length (create_requests (calls (router_select_department numbering support ada
                   (router_select_department numbering support ada initial)))) = 2"
  by (simp add: router_select_department_def router_create_matrix_room_eq
        router_send_matrix_message_eq create_requests_def request_def numbering_def initial_def ada_def
        str_nat.simps)

section \<open>C2: no relay before a department is chosen\<close>

text \<open>
  C2. A text message of a user whose session is not in the state \<^verbatim>\<open>chatting\<close> (no
  session, or \<^verbatim>\<open>selecting_department\<close>) makes \<^verbatim>\<open>handle_message\<close> of both Telethon
  scripts send no request to Matrix at all and answer with the welcome text and the
  department keyboard. In the bot script a user without session gets the reminder to begin
  with \<^verbatim>\<open>/start\<close>, and no request is made either.
\<close>

theorem no_relay_before_department_selection:
  "(\<not> chatting (user_sessions s (tg_id u)) \<longrightarrow>
      calls (router_handle_message e departments u message_text s) = calls s \<and>
      sent (router_handle_message e departments u message_text s) =
        sent s @ [Respond (router_wave @ '' Welcome '' @ py_or (tg_first_name u) ''there'' @ ''!'' @
                           nl @ nl @ ''I'm your support bot. Please select the department '' @
                           ''you'd like to contact:'')
                    (Some (get_departments_keyboard departments))] \<and>
      calls (space_handle_message e departments spaces u message_text s) = calls s \<and>
      sent (space_handle_message e departments spaces u message_text s) =
        sent s @ [Respond (space_wave @ '' Welcome '' @ py_or (tg_first_name u) ''there'' @ ''!'' @
                           nl @ nl @ ''I'm your support bot. Please select the department '' @
                           ''you'd like to contact:'')
                    (Some (get_departments_keyboard departments))]) \<and>
   (bot_user_sessions b (tg_id u) = None \<longrightarrow>
      bot_calls (bot_handle_message u message_text b) = bot_calls b \<and>
      bot_sent (bot_handle_message u message_text b) =
        bot_sent b @ [ReplyText (bot_wave @ '' Please start with /start to select a department '' @
                                  ''and connect with our support team.'') None None])"
  by (auto simp add: chatting_def router_handle_message_def router_handle_start_command_None
      space_handle_message_def space_handle_start_command_None bot_handle_message_def
      split: option.splits session.splits)

theorem no_relay_before_department_selection_witness:
  "\<not> chatting (user_sessions initial (tg_id ada)) \<and>
   calls (router_handle_message numbering [support, sales] ada ''hello'' initial) = [] \<and>
   sent (router_handle_message numbering [support, sales] ada ''hello'' initial) =
     [Respond (router_wave @ '' Welcome Ada!'' @ nl @ nl @
               ''I'm your support bot. Please select the department you'd like to contact:'')
        (Some [[(''S Support'', ''dept_support'')], [(''$ Sales'', ''dept_sales'')]])] \<and>
   calls (space_handle_message numbering [support, sales] example_spaces ada ''hello'' initial) = [] \<and>
   bot_user_sessions bot_initial (tg_id ada) = None \<and>
   bot_calls (bot_handle_message ada ''hello'' bot_initial) = [] \<and>
   bot_sent (bot_handle_message ada ''hello'' bot_initial) =
     [ReplyText (bot_wave @ '' Please start with /start to select a department '' @
                 ''and connect with our support team.'') None None]"
proof -
  have h1: "\<not> chatting (user_sessions initial (tg_id ada))"
    by (simp add: chatting_def initial_def)
  have h2: "bot_user_sessions bot_initial (tg_id ada) = None"
    by (simp add: bot_initial_def)
  note t = no_relay_before_department_selection [where s = initial and u = ada and e = numbering
      and departments = "[support, sales]" and spaces = example_spaces and b = bot_initial
      and message_text = "''hello''"]
  note c1 = mp [OF t [THEN conjunct1] h1]
  note c2 = mp [OF t [THEN conjunct2] h2]
  show ?thesis
    using h1 h2 c1 c2
    by (simp add: initial_def bot_initial_def ada_def py_or_def get_departments_keyboard_def
        support_def sales_def)
qed

section \<open>C3: invitations while a room is provisioned\<close>

text \<open>
  C3, as the code has it. In the space integration, once the channel space is resolved and
  the creation request is answered 200, \<^verbatim>\<open>create_telegram_room_in_space\<close> returns the
  room id of that answer whatever happens to the invitations. If no invitation raises an
  exception, one invitation is sent for every entry of \<^verbatim>\<open>support_users\<close> other than the
  department's \<^verbatim>\<open>bot_user_id\<close>, in order and whatever status each one gets. The router
  knows no staff list: it sends the single invitation of \<^verbatim>\<open>bot_user_id\<close> and returns the
  room id as well.
\<close>

theorem invites_never_decide_the_result:
  "(ensure_telegram_space_hierarchy e departments spaces s = (Inr space, s1) \<and>
    respond e (calls s1) (request d CreateRoom (space_room_data d u)) = Response 200 room \<longrightarrow>
      fst (create_telegram_room_in_space e departments spaces d u s) = room \<and>
      ((\<forall>h c r. endpoint c = Invite r \<longrightarrow> respond e h c \<noteq> Raised) \<longrightarrow>
         new_calls s1 (snd (create_telegram_room_in_space e departments spaces d u s)) =
           [request d CreateRoom (space_room_data d u),
            request d (SpaceChild (str_opt space) (str_opt room))
              (JObj [(''via'', JList [JStr ''localhost'']),
                     (''order'', JStr (str_int (loop_time_ms e
                        (calls s1 @ [request d CreateRoom (space_room_data d u)]))))])] @
           map (invitation (mx_homeserver (dept_matrix d)) (mx_access_token (dept_matrix d)) room)
             (filter (\<lambda>user_id. user_id \<noteq> mx_bot_user_id (dept_matrix d))
                (mx_support_users (dept_matrix d))))) \<and>
   (respond e (calls s) (request d CreateRoom (router_room_data d u)) = Response 200 room \<longrightarrow>
      fst (router_create_matrix_room e d u s) = room \<and>
      new_calls s (snd (router_create_matrix_room e d u s)) =
        [request d CreateRoom (router_room_data d u),
         invitation (mx_homeserver (dept_matrix d)) (mx_access_token (dept_matrix d)) room
           (mx_bot_user_id (dept_matrix d))])"
proof (intro conjI impI)
  assume a: "ensure_telegram_space_hierarchy e departments spaces s = (Inr space, s1) \<and>
    respond e (calls s1) (request d CreateRoom (space_room_data d u)) = Response 200 room"
  show "fst (create_telegram_room_in_space e departments spaces d u s) = room"
    using a space_room_result by blast
  assume "\<forall>h c r. endpoint c = Invite r \<longrightarrow> respond e h c \<noteq> Raised"
  then have n: "\<And>h c r. endpoint c = Invite r \<Longrightarrow> respond e h c \<noteq> Raised"
    by blast
  show "new_calls s1 (snd (create_telegram_room_in_space e departments spaces d u s)) =
           [request d CreateRoom (space_room_data d u),
            request d (SpaceChild (str_opt space) (str_opt room))
              (JObj [(''via'', JList [JStr ''localhost'']),
                     (''order'', JStr (str_int (loop_time_ms e
                        (calls s1 @ [request d CreateRoom (space_room_data d u)]))))])] @
           map (invitation (mx_homeserver (dept_matrix d)) (mx_access_token (dept_matrix d)) room)
             (filter (\<lambda>user_id. user_id \<noteq> mx_bot_user_id (dept_matrix d))
                (mx_support_users (dept_matrix d)))"
    using a by (intro space_room_calls [OF _ _ n]) auto
next
  assume a: "respond e (calls s) (request d CreateRoom (router_room_data d u)) = Response 200 room"
  show "fst (router_create_matrix_room e d u s) = room"
    using a by (simp add: router_create_matrix_room_eq)
  show "new_calls s (snd (router_create_matrix_room e d u s)) =
        [request d CreateRoom (router_room_data d u),
         invitation (mx_homeserver (dept_matrix d)) (mx_access_token (dept_matrix d)) room
           (mx_bot_user_id (dept_matrix d))]"
    using a by (simp add: router_create_matrix_room_eq new_calls_def invitation_def request_def)
qed

theorem invites_never_decide_the_result_witness:
  "ensure_telegram_space_hierarchy invites_refused [support, sales] example_spaces resolved =
     (Inr (Some ''!s1''), resolved) \<and>
   respond invites_refused (calls resolved) (request support CreateRoom (space_room_data support ada)) =
     Response 200 (Some ''!r0'') \<and>
   respond invites_refused [] (invitation ''http://localhost:8008'' ''token1'' (Some ''!r0'')
                                 ''@alice:localhost'') = Response 403 None \<and>
   fst (create_telegram_room_in_space invites_refused [support, sales] example_spaces support ada
          resolved) = Some ''!r0'' \<and>
   map endpoint (new_calls resolved
     (snd (create_telegram_room_in_space invites_refused [support, sales] example_spaces support ada
             resolved))) =
     [CreateRoom, SpaceChild ''!s1'' ''!r0'', Invite ''!r0'', Invite ''!r0''] \<and>
   map body (drop 2 (new_calls resolved
     (snd (create_telegram_room_in_space invites_refused [support, sales] example_spaces support ada
             resolved)))) =
     [JObj [(''user_id'', JStr ''@alice:localhost'')], JObj [(''user_id'', JStr ''@bob:localhost'')]] \<and>
   respond invites_refused (calls resolved) (request support CreateRoom (router_room_data support ada)) =
     Response 200 (Some ''!r0'') \<and>
   fst (router_create_matrix_room invites_refused support ada resolved) = Some ''!r0''"
proof -
  have h1: "ensure_telegram_space_hierarchy invites_refused [support, sales] example_spaces resolved =
     (Inr (Some ''!s1''), resolved)"
    by (simp add: ensure_telegram_space_hierarchy_def resolved_def)
  have h2: "respond invites_refused (calls resolved)
      (request support CreateRoom (space_room_data support ada)) = Response 200 (Some ''!r0'')"
    by (simp add: invites_refused_def resolved_def request_def str_nat.simps)
  have h3: "\<forall>h c r. endpoint c = Invite r \<longrightarrow> respond invites_refused h c \<noteq> Raised"
    by (simp add: invites_refused_def)
  have h4: "respond invites_refused (calls resolved)
      (request support CreateRoom (router_room_data support ada)) = Response 200 (Some ''!r0'')"
    by (simp add: invites_refused_def resolved_def request_def str_nat.simps)
  note t = invites_never_decide_the_result [where e = invites_refused
      and departments = "[support, sales]" and spaces = example_spaces and s = resolved
      and space = "Some ''!s1''" and ?s1.0 = resolved and d = support and u = ada
      and room = "Some ''!r0''"]
  note c1 = mp [OF t [THEN conjunct1] conjI [OF h1 h2]]
  note c2 = mp [OF c1 [THEN conjunct2] h3]
  note c3 = mp [OF t [THEN conjunct2] h4]
  show ?thesis
    using h1 h2 h4 c1 [THEN conjunct1] c2 c3 [THEN conjunct1]
    by (simp add: request_def invitation_def str_opt_def support_def invites_refused_def)
qed

text \<open>
  The claim of C3 itself (an invitation is attempted for every configured staff identity)
  fails for a staff list that names the bot identity: the loop skips it, as its comment says.
\<close>

theorem bot_identity_gets_no_invite:
  "mx_support_users (dept_matrix support) =
     [''@alice:localhost'', ''@bot:localhost'', ''@bob:localhost''] \<and>
   map body (calls (invite_support_users_to_room numbering (Some ''!r5'') support
                      ''http://localhost:8008'' ''token1'' initial)) =
     [JObj [(''user_id'', JStr ''@alice:localhost'')], JObj [(''user_id'', JStr ''@bob:localhost'')]]"
  by (simp add: invite_support_users_to_room_def support_def numbering_def initial_def http_def)

text \<open>
  The hypothesis that no invitation raises is needed: the \<^verbatim>\<open>try\<close> of
  \<^verbatim>\<open>invite_support_users_to_room\<close> encloses the whole loop, so with a server that
  cannot be reached for invitations Alice's is attempted and Bob's is not. The room id is
  returned all the same.
\<close>

lemma raised_invitation_ends_the_loop:
  "map body (calls (invite_support_users_to_room invites_unreachable (Some ''!r5'') support
                      ''http://localhost:8008'' ''token1'' initial)) =
     [JObj [(''user_id'', JStr ''@alice:localhost'')]] \<and>
   fst (create_telegram_room_in_space invites_unreachable [support, sales] example_spaces support ada
          resolved) = Some ''!r0''"
proof
  show "map body (calls (invite_support_users_to_room invites_unreachable (Some ''!r5'') support
                      ''http://localhost:8008'' ''token1'' initial)) =
     [JObj [(''user_id'', JStr ''@alice:localhost'')]]"
    by (simp add: invite_support_users_to_room_def support_def invites_unreachable_def initial_def
        http_def)
  have "respond invites_unreachable (calls resolved)
      (request support CreateRoom (space_room_data support ada)) = Response 200 (Some ''!r0'')"
    by (simp add: invites_unreachable_def resolved_def request_def str_nat.simps)
  then show "fst (create_telegram_room_in_space invites_unreachable [support, sales] example_spaces
      support ada resolved) = Some ''!r0''"
    by (rule space_room_result [OF resolved_hit])
qed

section \<open>C4: the channel space is cached on success and not on failure\<close>

text \<open>
  C4. When \<^verbatim>\<open>ensure_telegram_space_hierarchy\<close> returns a space id, the id is in
  \<open>space_cache\<close> under \<^verbatim>\<open>'telegram'\<close>, and after any later runs of the handlers
  the method returns that same id and leaves the state as it is: it makes no request. When
  it raises, the cache is what it was before the call; and it does raise when the request
  that creates the root space, or the one that creates the channel space, is answered with
  a status other than 200 or with an exception.
\<close>

theorem channel_space_is_cached_or_fails:
  "(ensure_telegram_space_hierarchy e departments spaces s = (Inr space, s1) \<longrightarrow>
      space_cache s1 ''telegram'' = Some space \<and>
      ensure_telegram_space_hierarchy e departments spaces
          (fold (space_run e departments spaces) runs s1) =
        (Inr space, fold (space_run e departments spaces) runs s1)) \<and>
   (ensure_telegram_space_hierarchy e departments spaces s = (Inl err, s1) \<longrightarrow>
      space_cache s1 = space_cache s) \<and>
   (space_cache s ''telegram'' = None \<and> departments = d0 # ds \<and>
    failed (respond e (calls s) (request d0 CreateRoom (space_data (rootSpace spaces)))) \<longrightarrow>
      (\<exists>err. fst (ensure_telegram_space_hierarchy e departments spaces s) = Inl err)) \<and>
   (space_cache s ''telegram'' = None \<and> departments = d0 # ds \<and>
    respond e (calls s) (request d0 CreateRoom (space_data (rootSpace spaces))) = Response 200 root \<and>
    find (\<lambda>channel. cfg_id channel = ''telegram'') (communicationChannels spaces) = Some channel \<and>
    failed (respond e (calls s @ [request d0 CreateRoom (space_data (rootSpace spaces))])
              (request d0 CreateRoom (space_data channel))) \<longrightarrow>
      (\<exists>err. fst (ensure_telegram_space_hierarchy e departments spaces s) = Inl err))"
proof (intro conjI impI)
  assume a: "ensure_telegram_space_hierarchy e departments spaces s = (Inr space, s1)"
  show c: "space_cache s1 ''telegram'' = Some space"
    using a by (rule hierarchy_Inr)
  have "space_cache (fold (space_run e departments spaces) runs s1) ''telegram'' = Some space"
    using c by (simp add: space_runs_cache)
  then show "ensure_telegram_space_hierarchy e departments spaces
          (fold (space_run e departments spaces) runs s1) =
        (Inr space, fold (space_run e departments spaces) runs s1)"
    by (rule hierarchy_hit)
next
  assume "ensure_telegram_space_hierarchy e departments spaces s = (Inl err, s1)"
  then show "space_cache s1 = space_cache s"
    by (rule hierarchy_Inl)
next
  assume "space_cache s ''telegram'' = None \<and> departments = d0 # ds \<and>
    failed (respond e (calls s) (request d0 CreateRoom (space_data (rootSpace spaces))))"
  then show "\<exists>err. fst (ensure_telegram_space_hierarchy e departments spaces s) = Inl err"
    using hierarchy_root_failed by blast
next
  assume "space_cache s ''telegram'' = None \<and> departments = d0 # ds \<and>
    respond e (calls s) (request d0 CreateRoom (space_data (rootSpace spaces))) = Response 200 root \<and>
    find (\<lambda>channel. cfg_id channel = ''telegram'') (communicationChannels spaces) = Some channel \<and>
    failed (respond e (calls s @ [request d0 CreateRoom (space_data (rootSpace spaces))])
              (request d0 CreateRoom (space_data channel)))"
  then show "\<exists>err. fst (ensure_telegram_space_hierarchy e departments spaces s) = Inl err"
    using hierarchy_channel_failed by blast
qed

theorem channel_space_is_cached_or_fails_witness:
  "ensure_telegram_space_hierarchy numbering [support, sales] example_spaces initial =
     (Inr (Some ''!r1''),
      snd (ensure_telegram_space_hierarchy numbering [support, sales] example_spaces initial)) \<and>
   space_cache (snd (ensure_telegram_space_hierarchy numbering [support, sales] example_spaces initial))
     ''telegram'' = Some (Some ''!r1'') \<and>
   ensure_telegram_space_hierarchy numbering [support, sales] example_spaces
     (fold (space_run numbering [support, sales] example_spaces)
        [MessageHandler ada ''hello'', CallbackHandler ada ''dept_sales'']
        (snd (ensure_telegram_space_hierarchy numbering [support, sales] example_spaces initial))) =
     (Inr (Some ''!r1''),
      fold (space_run numbering [support, sales] example_spaces)
        [MessageHandler ada ''hello'', CallbackHandler ada ''dept_sales'']
        (snd (ensure_telegram_space_hierarchy numbering [support, sales] example_spaces initial))) \<and>
   ensure_telegram_space_hierarchy refusing [support, sales] example_spaces initial =
     (Inl (Failure ''Failed to create root space: 500''),
      snd (ensure_telegram_space_hierarchy refusing [support, sales] example_spaces initial)) \<and>
   space_cache (snd (ensure_telegram_space_hierarchy refusing [support, sales] example_spaces initial)) =
     space_cache initial \<and>
   space_cache initial ''telegram'' = None \<and>
   failed (respond refusing (calls initial)
             (request support CreateRoom (space_data (rootSpace example_spaces)))) \<and>
   respond first_only (calls initial)
       (request support CreateRoom (space_data (rootSpace example_spaces))) =
     Response 200 (Some ''!r0'') \<and>
   find (\<lambda>channel. cfg_id channel = ''telegram'') (communicationChannels example_spaces) =
     Some \<lparr>cfg_id = ''telegram'', cfg_name = ''Telegram'', cfg_topic = ''Telegram chats''\<rparr> \<and>
   failed (respond first_only
             (calls initial @ [request support CreateRoom (space_data (rootSpace example_spaces))])
             (request support CreateRoom
                (space_data \<lparr>cfg_id = ''telegram'', cfg_name = ''Telegram'',
                              cfg_topic = ''Telegram chats''\<rparr>))) \<and>
   (\<exists>err. fst (ensure_telegram_space_hierarchy refusing [support, sales] example_spaces initial) =
           Inl err) \<and>
   (\<exists>err. fst (ensure_telegram_space_hierarchy first_only [support, sales] example_spaces initial) =
           Inl err)"
proof -
  let ?ok = "ensure_telegram_space_hierarchy numbering [support, sales] example_spaces initial"
  let ?no = "ensure_telegram_space_hierarchy refusing [support, sales] example_spaces initial"
  let ?tc = "\<lparr>cfg_id = ''telegram'', cfg_name = ''Telegram'', cfg_topic = ''Telegram chats''\<rparr>"
  have f: "find (\<lambda>channel. cfg_id channel = ''telegram'') (communicationChannels example_spaces) =
      Some ?tc"
    by (simp add: example_spaces_def)
  have "fst ?ok = Inr (Some ''!r1'')"
    by (simp add: ensure_telegram_space_hierarchy_def ensure_root_space_eq
        ensure_telegram_space_eq [OF f] initial_def numbering_def Let_def str_nat.simps)
  then have h1: "?ok = (Inr (Some ''!r1''), snd ?ok)"
    by (simp add: prod_eq_iff)
  have "fst ?no = Inl (Failure ''Failed to create root space: 500'')"
    by (simp add: ensure_telegram_space_hierarchy_def ensure_root_space_eq
        initial_def refusing_def Let_def str_nat.simps)
  then have h2: "?no = (Inl (Failure ''Failed to create root space: 500''), snd ?no)"
    by (simp add: prod_eq_iff)
  have h3: "space_cache initial ''telegram'' = None \<and> [support, sales] = support # [sales] \<and>
     failed (respond refusing (calls initial)
             (request support CreateRoom (space_data (rootSpace example_spaces))))"
    by (simp add: initial_def refusing_def failed_def)
  have h4: "space_cache initial ''telegram'' = None \<and> [support, sales] = support # [sales] \<and>
     respond first_only (calls initial)
       (request support CreateRoom (space_data (rootSpace example_spaces))) =
     Response 200 (Some ''!r0'') \<and>
     find (\<lambda>channel. cfg_id channel = ''telegram'') (communicationChannels example_spaces) =
       Some ?tc \<and>
     failed (respond first_only
             (calls initial @ [request support CreateRoom (space_data (rootSpace example_spaces))])
             (request support CreateRoom (space_data ?tc)))"
    by (simp add: initial_def first_only_def failed_def f)
  note t1 = channel_space_is_cached_or_fails [where e = numbering and departments = "[support, sales]"
      and spaces = example_spaces and s = initial and space = "Some ''!r1''" and ?s1.0 = "snd ?ok"
      and runs = "[MessageHandler ada ''hello'', CallbackHandler ada ''dept_sales'']"]
  note t2 = channel_space_is_cached_or_fails [where e = refusing and departments = "[support, sales]"
      and spaces = example_spaces and s = initial and ?s1.0 = "snd ?no"
      and err = "Failure ''Failed to create root space: 500''" and ?d0.0 = support and ds = "[sales]"]
  note t3 = channel_space_is_cached_or_fails [where e = first_only and departments = "[support, sales]"
      and spaces = example_spaces and s = initial and ?d0.0 = support and ds = "[sales]"
      and root = "Some ''!r0''" and channel = ?tc]
  note c1 = mp [OF t1 [THEN conjunct1] h1]
  note c2 = mp [OF t2 [THEN conjunct2, THEN conjunct1] h2]
  note c3 = mp [OF t2 [THEN conjunct2, THEN conjunct2, THEN conjunct1] h3]
  note c4 = mp [OF t3 [THEN conjunct2, THEN conjunct2, THEN conjunct2] h4]
  show ?thesis
    using h1 h2 h3 h4 c1 c2 c3 c4 by (elim conjE) (intro conjI; assumption)
qed

section \<open>C5: an unknown department id\<close>

text \<open>
  C5, as the code has it. A button press that carries an unknown department id is answered
  by editing the message to \<^verbatim>\<open>Department not found\<close>; the sessions stay as they are and
  no request goes to Matrix. A \<^verbatim>\<open>/start\<close> command that carries an unknown department id
  makes no request either, but it is answered with the welcome text and the department
  keyboard, and the user's session is replaced by \<^verbatim>\<open>selecting_department\<close>.
\<close>

theorem unknown_department_from_button_and_from_start:
  "get_department_by_id departments i = None \<Longrightarrow>
     user_sessions (router_handle_callback_query e departments u (''dept_'' @ i) s) =
       user_sessions s \<and>
     calls (router_handle_callback_query e departments u (''dept_'' @ i) s) = calls s \<and>
     sent (router_handle_callback_query e departments u (''dept_'' @ i) s) =
       sent s @ [Edit (router_cross @ '' Department not found. Please try again.'')] \<and>
     calls (router_handle_start_command e departments u (Some i) s) = calls s \<and>
     user_sessions (router_handle_start_command e departments u (Some i) s) =
       (user_sessions s)(tg_id u \<mapsto> SelectingDepartment) \<and>
     sent (router_handle_start_command e departments u (Some i) s) =
       sent s @ [Respond (router_wave @ '' Welcome '' @ py_or (tg_first_name u) ''there'' @ ''!'' @
                          nl @ nl @ ''I'm your support bot. Please select the department '' @
                          ''you'd like to contact:'')
                   (Some (get_departments_keyboard departments))]"
  by (simp add: router_handle_callback_query_def startswith_def
      router_handle_start_command_unknown router_handle_start_command_None)

theorem unknown_department_from_button_and_from_start_witness:
  "get_department_by_id [support, sales] ''nonexistent'' = None \<and>
   user_sessions (router_handle_callback_query numbering [support, sales] ada ''dept_nonexistent''
                    chatting_with_support) = user_sessions chatting_with_support \<and>
   calls (router_handle_callback_query numbering [support, sales] ada ''dept_nonexistent''
            chatting_with_support) = [] \<and>
   sent (router_handle_callback_query numbering [support, sales] ada ''dept_nonexistent''
           chatting_with_support) =
     [Edit (router_cross @ '' Department not found. Please try again.'')] \<and>
   calls (router_handle_start_command numbering [support, sales] ada (Some ''nonexistent'')
            chatting_with_support) = []"
proof -
  have h: "get_department_by_id [support, sales] ''nonexistent'' = None"
    by (simp add: support_def sales_def)
  show ?thesis
    using h unknown_department_from_button_and_from_start [OF h, of numbering ada chatting_with_support]
    by (simp add: chatting_with_support_def)
qed

text \<open>
  The claim of C5 itself (the session record is left unchanged and the user gets an error)
  fails on the \<^verbatim>\<open>/start\<close> path: Ada, chatting with Support, sends
  \<^verbatim>\<open>/start nonexistent\<close>, gets the welcome text, and her session is now
  \<^verbatim>\<open>selecting_department\<close>.
\<close>

theorem start_with_unknown_department_resets_session:
  "get_department_by_id [support, sales] ''nonexistent'' = None \<and>
   user_sessions chatting_with_support (tg_id ada) = Some (Chatting support ''!r1'') \<and>
   user_sessions (router_handle_start_command numbering [support, sales] ada (Some ''nonexistent'')
                    chatting_with_support) (tg_id ada) = Some SelectingDepartment \<and>
   sent (router_handle_start_command numbering [support, sales] ada (Some ''nonexistent'')
           chatting_with_support) =
     [Respond (router_wave @ '' Welcome Ada!'' @ nl @ nl @
               ''I'm your support bot. Please select the department you'd like to contact:'')
        (Some [[(''S Support'', ''dept_support'')], [(''$ Sales'', ''dept_sales'')]])]"
  by (simp add: router_handle_start_command_def support_def sales_def chatting_with_support_def
      ada_def py_or_def get_departments_keyboard_def tg_def)

section \<open>C6: switching the department\<close>

text \<open>
  C6. A user is chatting with department A in room \<open>r1\<close> and selects department B; the
  creation request for B is answered 200 with a room id \<open>r2\<close> that is not empty and
  differs from \<open>r1\<close> (the server names the rooms). Then one creation request was made,
  for a room named after B; the session holds B and \<open>r2\<close>; every text message handled
  afterwards is sent to \<open>r2\<close> with B's credentials, as an \<^verbatim>\<open>m.text\<close> message whose
  body and formatted body end with the user's text, and leaves the session as it is; and no
  request since the selection is a message or an invitation for \<open>r1\<close>. Nothing is sent
  to \<open>r1\<close> to close it.
\<close>

theorem department_switch:
  "user_sessions s (tg_id u) = Some (Chatting dA r1) \<Longrightarrow>
   respond e (calls s) (request dB CreateRoom (router_room_data dB u)) = Response 200 (Some r2) \<Longrightarrow>
   r2 \<noteq> [] \<Longrightarrow> r2 \<noteq> r1 \<Longrightarrow>
   s' = router_select_department e dB u s \<Longrightarrow>
   s'' = fold (router_handle_message e departments u) texts s' \<Longrightarrow>
     create_requests (new_calls s s') = [request dB CreateRoom (router_room_data dB u)] \<and>
     json_get (router_room_data dB u) ''name'' =
       Some (JStr (''Telegram Support - '' @ dept_name dB @ '' - '' @
                   py_or (tg_first_name u) (py_or (tg_username u) (''User_'' @ str_int (tg_id u))))) \<and>
     user_sessions s' (tg_id u) = Some (Chatting dB r2) \<and>
     user_sessions s'' (tg_id u) = Some (Chatting dB r2) \<and>
     new_calls s' s'' =
       map (\<lambda>m. \<lparr>server = mx_homeserver (dept_matrix dB), endpoint = SendMessage r2,
                   bearer = mx_access_token (dept_matrix dB),
                   body = JObj
                     [(''msgtype'', JStr ''m.text''),
                      (''body'', JStr (''[Telegram User: '' @ py_or (tg_first_name u) ''Unknown'' @
                                       '' (@'' @ py_or (tg_username u) (str_int (tg_id u)) @
                                       '')] '' @ m)),
                      (''format'', JStr ''org.matrix.custom.html''),
                      (''formatted_body'', JStr (''<b>Telegram User:</b> '' @
                                       py_or (tg_first_name u) ''Unknown'' @
                                       '' (@'' @ py_or (tg_username u) (str_int (tg_id u)) @
                                       '')<br/>'' @ m))]\<rparr>) texts \<and>
     (\<forall>c \<in> set (new_calls s s''). endpoint c \<noteq> SendMessage r1 \<and> endpoint c \<noteq> Invite r1)"
proof -
  assume a: "respond e (calls s) (request dB CreateRoom (router_room_data dB u)) = Response 200 (Some r2)"
    "r2 \<noteq> []" "r2 \<noteq> r1" and s': "s' = router_select_department e dB u s"
    and s'': "s'' = fold (router_handle_message e departments u) texts s'"
  have sess: "user_sessions s' (tg_id u) = Some (Chatting dB r2)"
    using a by (simp add: s' router_select_department_def router_create_matrix_room_eq
        router_send_matrix_message_eq)
  have c1: "calls s' = calls s @ [request dB CreateRoom (router_room_data dB u),
      request dB (Invite r2) (JObj [(''user_id'', JStr (mx_bot_user_id (dept_matrix dB)))]),
      request dB (SendMessage r2) (router_message_data (''New Telegram conversation started with user '' @
                     py_or (tg_first_name u) ''Unknown'' @
                     '' (@'' @ py_or (tg_username u) (str_int (tg_id u)) @ '')'') u)]"
    using a by (simp add: s' router_select_department_def router_create_matrix_room_eq
        router_send_matrix_message_eq str_opt_def)
  have s2: "s'' = s'\<lparr>calls := calls s' @
      map (\<lambda>m. request dB (SendMessage r2) (router_message_data m u)) texts\<rparr>"
    by (simp add: s'' router_fold_chatting [OF sess])
  have c2: "calls s'' = calls s' @ map (\<lambda>m. request dB (SendMessage r2) (router_message_data m u)) texts"
    by (subst s2) simp
  have sess2: "user_sessions s'' (tg_id u) = Some (Chatting dB r2)"
    by (subst s2) (simp add: sess)
  have name: "json_get (router_room_data dB u) ''name'' =
       Some (JStr (''Telegram Support - '' @ dept_name dB @ '' - '' @
                   py_or (tg_first_name u) (py_or (tg_username u) (''User_'' @ str_int (tg_id u)))))"
    by (simp add: json_get_def router_room_data_def)
  have relayed: "new_calls s' s'' =
       map (\<lambda>m. \<lparr>server = mx_homeserver (dept_matrix dB), endpoint = SendMessage r2,
                   bearer = mx_access_token (dept_matrix dB),
                   body = JObj
                     [(''msgtype'', JStr ''m.text''),
                      (''body'', JStr (''[Telegram User: '' @ py_or (tg_first_name u) ''Unknown'' @
                                       '' (@'' @ py_or (tg_username u) (str_int (tg_id u)) @
                                       '')] '' @ m)),
                      (''format'', JStr ''org.matrix.custom.html''),
                      (''formatted_body'', JStr (''<b>Telegram User:</b> '' @
                                       py_or (tg_first_name u) ''Unknown'' @
                                       '' (@'' @ py_or (tg_username u) (str_int (tg_id u)) @
                                       '')<br/>'' @ m))]\<rparr>) texts"
    by (simp add: c2 new_calls_def request_def router_message_data_def)
  have others: "\<forall>c \<in> set (new_calls s s''). endpoint c \<noteq> SendMessage r1 \<and> endpoint c \<noteq> Invite r1"
    using a(3) by (auto simp add: c1 c2 new_calls_def request_def)
  have created: "create_requests (new_calls s s') = [request dB CreateRoom (router_room_data dB u)]"
    by (simp add: c1 new_calls_def create_requests_def request_def)
  show ?thesis
    using created name sess sess2 relayed others by blast
qed

theorem department_switch_witness:
  "user_sessions chatting_with_support (tg_id ada) = Some (Chatting support ''!r1'') \<and>
   respond numbering (calls chatting_with_support)
       (request sales CreateRoom (router_room_data sales ada)) = Response 200 (Some ''!r0'') \<and>
   ''!r0'' \<noteq> [] \<and> ''!r0'' \<noteq> ''!r1'' \<and>
   json_get (router_room_data sales ada) ''name'' = Some (JStr ''Telegram Support - Sales - Ada'') \<and>
   user_sessions (router_select_department numbering sales ada chatting_with_support) (tg_id ada) =
     Some (Chatting sales ''!r0'') \<and>
   new_calls (router_select_department numbering sales ada chatting_with_support)
     (fold (router_handle_message numbering [support, sales] ada) [''hi'', ''bye'']
        (router_select_department numbering sales ada chatting_with_support)) =
     [\<lparr>server = ''http://localhost:8008'', endpoint = SendMessage ''!r0'', bearer = ''token2'',
       body = JObj [(''msgtype'', JStr ''m.text''),
                    (''body'', JStr ''[Telegram User: Ada (@ada)] hi''),
                    (''format'', JStr ''org.matrix.custom.html''),
                    (''formatted_body'', JStr ''<b>Telegram User:</b> Ada (@ada)<br/>hi'')]\<rparr>,
      \<lparr>server = ''http://localhost:8008'', endpoint = SendMessage ''!r0'', bearer = ''token2'',
       body = JObj [(''msgtype'', JStr ''m.text''),
                    (''body'', JStr ''[Telegram User: Ada (@ada)] bye''),
                    (''format'', JStr ''org.matrix.custom.html''),
                    (''formatted_body'', JStr ''<b>Telegram User:</b> Ada (@ada)<br/>bye'')]\<rparr>]"
proof -
  have h1: "user_sessions chatting_with_support (tg_id ada) = Some (Chatting support ''!r1'')"
    by (simp add: chatting_with_support_def ada_def)
  have h2: "respond numbering (calls chatting_with_support)
       (request sales CreateRoom (router_room_data sales ada)) = Response 200 (Some ''!r0'')"
    by (simp add: numbering_def chatting_with_support_def str_nat.simps)
  have h3: "''!r0'' \<noteq> []" and h4: "''!r0'' \<noteq> ''!r1''"
    by simp_all
  note t = department_switch [OF h1 h2 h3 h4 refl refl, where departments = "[support, sales]"
      and texts = "[''hi'', ''bye'']"]
  have n: "json_get (router_room_data sales ada) ''name'' = Some (JStr ''Telegram Support - Sales - Ada'')"
    using t [THEN conjunct2, THEN conjunct1] by (simp add: sales_def ada_def py_or_def)
  have r: "new_calls (router_select_department numbering sales ada chatting_with_support)
     (fold (router_handle_message numbering [support, sales] ada) [''hi'', ''bye'']
        (router_select_department numbering sales ada chatting_with_support)) =
     [\<lparr>server = ''http://localhost:8008'', endpoint = SendMessage ''!r0'', bearer = ''token2'',
       body = JObj [(''msgtype'', JStr ''m.text''),
                    (''body'', JStr ''[Telegram User: Ada (@ada)] hi''),
                    (''format'', JStr ''org.matrix.custom.html''),
                    (''formatted_body'', JStr ''<b>Telegram User:</b> Ada (@ada)<br/>hi'')]\<rparr>,
      \<lparr>server = ''http://localhost:8008'', endpoint = SendMessage ''!r0'', bearer = ''token2'',
       body = JObj [(''msgtype'', JStr ''m.text''),
                    (''body'', JStr ''[Telegram User: Ada (@ada)] bye''),
                    (''format'', JStr ''org.matrix.custom.html''),
                    (''formatted_body'', JStr ''<b>Telegram User:</b> Ada (@ada)<br/>bye'')]\<rparr>]"
    using t [THEN conjunct2, THEN conjunct2, THEN conjunct2, THEN conjunct2, THEN conjunct1]
    by (simp add: sales_def ada_def py_or_def)
  show ?thesis
    by (intro conjI) (rule h1 h2 h3 h4 n r t [THEN conjunct2, THEN conjunct2, THEN conjunct1])+
qed

section \<open>C7: what the relay tells its caller\<close>

text \<open>
  C7, as the code has it. \<^verbatim>\<open>send_matrix_message\<close> makes one request to the room and
  returns nothing: the state it leaves is the old one with that request appended, the same
  for every server, so the caller cannot tell a delivered message from a failed one.
\<close>

theorem relay_returns_nothing:
  "router_send_matrix_message e room_id message d u s =
     s\<lparr>calls := calls s @ [request d (SendMessage room_id) (router_message_data message u)]\<rparr> \<and>
   space_send_matrix_message e room_id message d u s =
     s\<lparr>calls := calls s @ [request d (SendMessage room_id) (space_message_data message u)]\<rparr> \<and>
   router_send_matrix_message e room_id message d u s =
     router_send_matrix_message e' room_id message d u s \<and>
   space_send_matrix_message e room_id message d u s =
     space_send_matrix_message e' room_id message d u s"
  by (simp add: router_send_matrix_message_eq space_send_matrix_message_eq)

text \<open>
  The claim of C7 itself (a failure of the send is visible to the caller) fails: a server
  that answers 500 and one that cannot be reached leave the router exactly where a server
  that answers 200 leaves it.
\<close>

theorem failed_relay_looks_like_success:
  "\<not> failed (respond numbering (calls chatting_with_support)
               (request support (SendMessage ''!r1'') (router_message_data ''hello'' ada))) \<and>
   failed (respond refusing (calls chatting_with_support)
            (request support (SendMessage ''!r1'') (router_message_data ''hello'' ada))) \<and>
   failed (respond unreachable (calls chatting_with_support)
            (request support (SendMessage ''!r1'') (router_message_data ''hello'' ada))) \<and>
   router_send_matrix_message refusing ''!r1'' ''hello'' support ada chatting_with_support =
     router_send_matrix_message numbering ''!r1'' ''hello'' support ada chatting_with_support \<and>
   router_send_matrix_message unreachable ''!r1'' ''hello'' support ada chatting_with_support =
     router_send_matrix_message numbering ''!r1'' ''hello'' support ada chatting_with_support \<and>
   router_handle_message refusing [support, sales] ada ''hello'' chatting_with_support =
     router_handle_message numbering [support, sales] ada ''hello'' chatting_with_support"
  by (simp add: failed_def numbering_def refusing_def unreachable_def
      router_send_matrix_message_eq router_handle_message_def chatting_with_support_def ada_def)

section \<open>C8: the conversation id of the bot's session\<close>

text \<open>
  C8, as the code has it. In the bot script every selection of a known department stores a
  session whose conversation id is the first eight characters of a fresh
  \<^verbatim>\<open>uuid4\<close>, replacing the session the user had. A selection of an unknown
  department, a selection by another user, \<^verbatim>\<open>/start\<close> and a text message leave the
  user's session, and so its conversation id, as they are. The space integration stores no
  conversation id: the one in the room's name is \<^verbatim>\<open>tg\<close> followed by the user's id.
\<close>

theorem conversation_id_follows_each_selection:
  "(map_of bot_departments (py_replace data ''dept_'' []) = Some dept_info \<longrightarrow>
      map_option s_conversation_id
        (bot_user_sessions (department_callback u chat_id data now uuid4 b) (tg_id u)) =
      Some (take 8 uuid4)) \<and>
   (map_of bot_departments (py_replace data ''dept_'' []) = None \<longrightarrow>
      bot_user_sessions (department_callback u chat_id data now uuid4 b) = bot_user_sessions b) \<and>
   (other \<noteq> tg_id u \<longrightarrow>
      bot_user_sessions (department_callback u chat_id data now uuid4 b) other =
      bot_user_sessions b other) \<and>
   bot_user_sessions (start_command u b) = bot_user_sessions b \<and>
   bot_user_sessions (bot_handle_message u message_text b) = bot_user_sessions b \<and>
   json_get (space_room_data d u) ''name'' =
     Some (JStr (py_or (tg_first_name u) (py_or (tg_username u) (''User_'' @ str_int (tg_id u))) @
                 '' (Telegram) - '' @ dept_name d @ '' #'' @ ''tg'' @ str_int (tg_id u)))"
proof (intro conjI impI)
  assume "map_of bot_departments (py_replace data ''dept_'' []) = Some dept_info"
  then show "map_option s_conversation_id
        (bot_user_sessions (department_callback u chat_id data now uuid4 b) (tg_id u)) =
      Some (take 8 uuid4)"
    by (simp add: department_callback_known)
next
  assume "map_of bot_departments (py_replace data ''dept_'' []) = None"
  then show "bot_user_sessions (department_callback u chat_id data now uuid4 b) = bot_user_sessions b"
    by (rule department_callback_unknown)
next
  assume "other \<noteq> tg_id u"
  then show "bot_user_sessions (department_callback u chat_id data now uuid4 b) other =
      bot_user_sessions b other"
    by (cases "map_of bot_departments (py_replace data ''dept_'' [])")
      (simp_all add: department_callback_known department_callback_unknown)
next
  show "bot_user_sessions (start_command u b) = bot_user_sessions b"
    by (simp add: start_command_def Let_def)
  show "bot_user_sessions (bot_handle_message u message_text b) = bot_user_sessions b"
    by (simp add: bot_handle_message_def)
  show "json_get (space_room_data d u) ''name'' =
     Some (JStr (py_or (tg_first_name u) (py_or (tg_username u) (''User_'' @ str_int (tg_id u))) @
                 '' (Telegram) - '' @ dept_name d @ '' #'' @ ''tg'' @ str_int (tg_id u)))"
    by (simp add: json_get_def space_room_data_def Let_def)
qed

theorem conversation_id_follows_each_selection_witness:
  "map_of bot_departments (py_replace ''dept_general'' ''dept_'' []) =
     Some general_inquiry \<and>
   map_option s_conversation_id
     (bot_user_sessions (department_callback ada 42 ''dept_general'' ''2024-05-01T10:00:00''
        ''1b9d6bcd-bbfd-4b2d-9b5d-ab8dfbbd4bed'' bot_initial) (tg_id ada)) = Some ''1b9d6bcd'' \<and>
   map_of bot_departments (py_replace ''dept_legal'' ''dept_'' []) = None \<and>
   bot_user_sessions (department_callback ada 42 ''dept_legal'' ''2024-05-01T10:00:00''
        ''1b9d6bcd-bbfd-4b2d-9b5d-ab8dfbbd4bed'' bot_initial) = bot_user_sessions bot_initial \<and>
   (7::int) \<noteq> tg_id ada \<and>
   bot_user_sessions (department_callback ada 42 ''dept_general'' ''2024-05-01T10:00:00''
        ''1b9d6bcd-bbfd-4b2d-9b5d-ab8dfbbd4bed'' bot_initial) 7 = bot_user_sessions bot_initial 7"
proof -
  have h1: "map_of bot_departments (py_replace ''dept_general'' ''dept_'' []) =
     Some general_inquiry"
    by (simp add: py_replace_dept_general general_known)
  have "py_replace ''dept_legal'' ''dept_'' [] = ''legal''"
    by (simp add: py_replace.simps startswith_def)
  then have h2: "map_of bot_departments (py_replace ''dept_legal'' ''dept_'' []) = None"
    by (simp add: bot_departments_def)
  have h3: "(7::int) \<noteq> tg_id ada"
    by (simp add: ada_def)
  note t1 = conversation_id_follows_each_selection [where data = "''dept_general''" and u = ada
      and chat_id = 42 and now = "''2024-05-01T10:00:00''"
      and ?uuid4.0 = "''1b9d6bcd-bbfd-4b2d-9b5d-ab8dfbbd4bed''" and b = bot_initial and other = 7]
  note t2 = conversation_id_follows_each_selection [where data = "''dept_legal''" and u = ada
      and chat_id = 42 and now = "''2024-05-01T10:00:00''"
      and ?uuid4.0 = "''1b9d6bcd-bbfd-4b2d-9b5d-ab8dfbbd4bed''" and b = bot_initial]
  note c1 = mp [OF t1 [THEN conjunct1] h1]
  note c2 = mp [OF t2 [THEN conjunct2, THEN conjunct1] h2]
  note c3 = mp [OF t1 [THEN conjunct2, THEN conjunct2, THEN conjunct1] h3]
  show ?thesis
    using h1 h2 h3 c1 c2 c3 by simp
qed

text \<open>
  The claim of C8 itself (no later event, selecting a department again included, changes
  the conversation id) fails: Ada selects General Inquiry twice and her conversation id
  goes from \<open>1b9d6bcd\<close> to \<open>9c5b94b1\<close>.
\<close>

theorem reselecting_changes_the_conversation_id:
  "map_option s_conversation_id
     (bot_user_sessions
        (department_callback ada 42 ''dept_general'' ''2024-05-01T10:00:00''
           ''1b9d6bcd-bbfd-4b2d-9b5d-ab8dfbbd4bed'' bot_initial) (tg_id ada)) = Some ''1b9d6bcd'' \<and>
   map_option s_conversation_id
     (bot_user_sessions
        (department_callback ada 42 ''dept_general'' ''2024-05-01T10:05:00''
           ''9c5b94b1-35ad-49bb-b118-8e8fc24abf80''
           (department_callback ada 42 ''dept_general'' ''2024-05-01T10:00:00''
              ''1b9d6bcd-bbfd-4b2d-9b5d-ab8dfbbd4bed'' bot_initial)) (tg_id ada)) = Some ''9c5b94b1''"
  by (simp add: department_callback_known [where dept_info = general_inquiry]
      py_replace_dept_general general_known)

section \<open>C9: the payload of a room creation\<close>

text \<open>
  C9, as the code has it. Every request that creates a conversation room has the preset
  \<^verbatim>\<open>private_chat\<close>. The router and the space integration send
  \<^verbatim>\<open>creation_content\<close> with \<^verbatim>\<open>m.federate\<close> false and no \<^verbatim>\<open>initial_state\<close>, so no
  power levels. The bot sends the visibility \<^verbatim>\<open>private\<close> and power levels (admin 100,
  support 50, everyone else 0) and no \<^verbatim>\<open>creation_content\<close>, so it does not switch
  federation off.
\<close>

theorem creation_requests_of_each_script:
  "create_requests (new_calls s (snd (router_create_matrix_room e d u s))) =
     [request d CreateRoom (router_room_data d u)] \<and>
   json_get (router_room_data d u) ''preset'' = Some (JStr ''private_chat'') \<and>
   json_get (router_room_data d u) ''creation_content'' = Some (JObj [(''m.federate'', JBool False)]) \<and>
   json_get (router_room_data d u) ''initial_state'' = None \<and>
   power_levels (router_room_data d u) = None \<and>
   (ensure_telegram_space_hierarchy e departments spaces s = (Inr space, s1) \<longrightarrow>
      create_requests (new_calls s1 (snd (create_telegram_room_in_space e departments spaces d u s))) =
        [request d CreateRoom (space_room_data d u)]) \<and>
   json_get (space_room_data d u) ''preset'' = Some (JStr ''private_chat'') \<and>
   json_get (space_room_data d u) ''creation_content'' = Some (JObj [(''m.federate'', JBool False)]) \<and>
   json_get (space_room_data d u) ''initial_state'' = None \<and>
   power_levels (space_room_data d u) = None \<and>
   (bot_user_sessions b telegram_user_id = Some user_session \<and>
    map_of bot_departments department_id = Some dept_info \<longrightarrow>
      create_requests (bot_new_calls b
          (snd (bot_create_matrix_room e telegram_user_id department_id b))) =
        [\<lparr>server = matrix_homeserver b, endpoint = CreateRoom, bearer = matrix_token b,
          body = bot_room_data telegram_user_id department_id user_session dept_info\<rparr>]) \<and>
   json_get (bot_room_data telegram_user_id department_id user_session dept_info) ''preset'' =
     Some (JStr ''private_chat'') \<and>
   json_get (bot_room_data telegram_user_id department_id user_session dept_info) ''visibility'' =
     Some (JStr ''private'') \<and>
   json_get (bot_room_data telegram_user_id department_id user_session dept_info)
     ''creation_content'' = None \<and>
   power_levels (bot_room_data telegram_user_id department_id user_session dept_info) =
     Some (JObj [(''users'', JObj [(''@admin:localhost'', JInt 100),
                                   (''@support:localhost'', JInt 50)]),
                 (''users_default'', JInt 0),
                 (''events_default'', JInt 0),
                 (''state_default'', JInt 50),
                 (''invite'', JInt 50),
                 (''kick'', JInt 50),
                 (''ban'', JInt 50),
                 (''redact'', JInt 50)])"
proof (intro conjI impI)
  show "create_requests (new_calls s (snd (router_create_matrix_room e d u s))) =
     [request d CreateRoom (router_room_data d u)]"
    by (simp add: router_create_matrix_room_eq new_calls_def create_requests_def request_def
        split: http_response.split)
next
  assume "ensure_telegram_space_hierarchy e departments spaces s = (Inr space, s1)"
  then show "create_requests (new_calls s1 (snd (create_telegram_room_in_space e departments spaces d u s))) =
        [request d CreateRoom (space_room_data d u)]"
    by (rule space_room_requests)
next
  assume "bot_user_sessions b telegram_user_id = Some user_session \<and>
    map_of bot_departments department_id = Some dept_info"
  then show "create_requests (bot_new_calls b
          (snd (bot_create_matrix_room e telegram_user_id department_id b))) =
        [\<lparr>server = matrix_homeserver b, endpoint = CreateRoom, bearer = matrix_token b,
          body = bot_room_data telegram_user_id department_id user_session dept_info\<rparr>]"
    using bot_create_requests by blast
qed (simp_all add: json_get_def power_levels_def router_room_data_def space_room_data_def
    bot_room_data_def Let_def)

theorem creation_requests_of_each_script_witness:
  "ensure_telegram_space_hierarchy numbering [support, sales] example_spaces resolved =
     (Inr (Some ''!s1''), resolved) \<and>
   create_requests (new_calls resolved
      (snd (create_telegram_room_in_space numbering [support, sales] example_spaces support ada
              resolved))) =
     [request support CreateRoom (space_room_data support ada)] \<and>
   bot_user_sessions bot_selected 42 = Some ada_session \<and>
   map_of bot_departments ''general'' = Some general_inquiry \<and>
   create_requests (bot_new_calls bot_selected
      (snd (bot_create_matrix_room numbering 42 ''general'' bot_selected))) =
     [\<lparr>server = matrix_homeserver bot_selected, endpoint = CreateRoom,
       bearer = matrix_token bot_selected,
       body = bot_room_data 42 ''general'' ada_session general_inquiry\<rparr>]"
proof -
  have h1: "ensure_telegram_space_hierarchy numbering [support, sales] example_spaces resolved =
     (Inr (Some ''!s1''), resolved)"
    by (rule resolved_hit)
  have h2: "bot_user_sessions bot_selected 42 = Some ada_session \<and>
     map_of bot_departments ''general'' = Some general_inquiry"
    by (simp add: bot_selected_def general_known)
  note t = creation_requests_of_each_script [where e = numbering and departments = "[support, sales]"
      and spaces = example_spaces and s = resolved and space = "Some ''!s1''" and ?s1.0 = resolved
      and d = support and u = ada and b = bot_selected and telegram_user_id = 42
      and department_id = "''general''" and user_session = ada_session
      and dept_info = general_inquiry]
  note c1 = mp [OF t [THEN conjunct2, THEN conjunct2, THEN conjunct2, THEN conjunct2,
        THEN conjunct2, THEN conjunct1] h1]
  note c2 = mp [OF t [THEN conjunct2, THEN conjunct2, THEN conjunct2, THEN conjunct2,
        THEN conjunct2, THEN conjunct2, THEN conjunct2, THEN conjunct2, THEN conjunct2,
        THEN conjunct2, THEN conjunct1] h2]
  show ?thesis
    using h1 h2 c1 c2 by (elim conjE) (intro conjI; assumption)
qed

text \<open>
  The claim of C9 itself (every creation request is unfederated and sets power levels) fails
  in both cited methods: the request of the space integration carries no power levels, the
  request of the bot carries no \<^verbatim>\<open>creation_content\<close>.
\<close>

theorem creation_requests_lack_power_levels_or_federation_flag:
  "map body (create_requests (calls
      (snd (create_telegram_room_in_space numbering [support, sales] example_spaces support ada
              resolved)))) = [space_room_data support ada] \<and>
   power_levels (space_room_data support ada) = None \<and>
   map body (create_requests (bot_calls
      (snd (bot_create_matrix_room numbering 42 ''general'' bot_selected)))) =
     [bot_room_data 42 ''general'' ada_session general_inquiry] \<and>
   json_get (bot_room_data 42 ''general'' ada_session general_inquiry) ''creation_content'' = None"
proof -
  have a: "new_calls resolved t = calls t" for t
    by (simp add: new_calls_def resolved_def)
  have b: "bot_new_calls bot_selected t = bot_calls t" for t
    by (simp add: bot_new_calls_def bot_selected_def)
  have "create_requests (calls
      (snd (create_telegram_room_in_space numbering [support, sales] example_spaces support ada
              resolved))) = [request support CreateRoom (space_room_data support ada)]"
    using space_room_requests [OF resolved_hit, of numbering "[support, sales]" example_spaces support ada]
    by (simp add: a)
  moreover have "create_requests (bot_calls
      (snd (bot_create_matrix_room numbering 42 ''general'' bot_selected))) =
     [\<lparr>server = matrix_homeserver bot_selected, endpoint = CreateRoom,
       bearer = matrix_token bot_selected,
       body = bot_room_data 42 ''general'' ada_session general_inquiry\<rparr>]"
    using bot_create_requests [of bot_selected 42 ada_session "''general''" general_inquiry numbering]
    by (simp add: b general_known) (simp add: bot_selected_def)
  ultimately show ?thesis
    by (simp add: request_def power_levels_def json_get_def space_room_data_def bot_room_data_def
        Let_def)
qed

section \<open>C10: commands never reach the message handler's body\<close>

text \<open>
  C10. In both Telethon scripts \<^verbatim>\<open>message_handler\<close> returns at once when the text
  begins with \<^verbatim>\<open>/\<close>: the state, and with it the sessions, the requests made to Matrix
  and the answers sent to the user, is what it was, whatever the user's session is.
\<close>

theorem message_handler_skips_commands:
  "startswith message_text ''/'' \<Longrightarrow>
     router_message_handler e departments user message_text s = s \<and>
     space_message_handler e departments spaces user message_text s = s"
  by (simp add: router_message_handler_def space_message_handler_def)

theorem message_handler_skips_commands_witness:
  "startswith ''/help'' ''/'' \<and>
   router_message_handler numbering [support, sales] ada ''/help'' chatting_with_support =
     chatting_with_support \<and>
   space_message_handler numbering [support, sales] example_spaces ada ''/help''
     chatting_with_support = chatting_with_support"
proof -
  have h: "startswith ''/help'' ''/''"
    by (simp add: startswith_def)
  show ?thesis
    using h message_handler_skips_commands [OF h] by simp
qed

end
